theory Spec2Isabelle
  imports Complex_Main "HOL-Library.AList" "HOL-Library.Multiset" "HOL-Library.Product_Lexorder"
begin

section \<open>Python values\<close>

text \<open>
  Python floats are modelled as real numbers.  Where an outcome of the program turns on the
  rounding of single operations (the ranking key, the risk/reward ratio, the synthetic
  strikes) the operations are the IEEE ones of the next subsection; elsewhere rounding is
  not represented.  A value that may be NaN is a \<open>real option\<close> with \<open>None\<close> for NaN, and
  one that may also be infinite is an \<open>npfloat\<close>.  Exceptions are values of type
  \<open>py_error\<close>; a computation that may raise returns \<open>py_error + 'a\<close>, and \<open>try_bind\<close>
  sequences two of them as consecutive statements of one \<^verbatim>\<open>try\<close> block do.
\<close>

datatype py_error =
  ZeroDivisionError | OverflowError | ValueError | TypeError | IndexError | LinAlgError
  | FetchError

definition try_bind :: "py_error + 'a \<Rightarrow> ('a \<Rightarrow> py_error + 'b) \<Rightarrow> py_error + 'b" where
  "try_bind m f = (case m of Inl e \<Rightarrow> Inl e | Inr v \<Rightarrow> f v)"

subsection \<open>Doubles\<close>

text \<open>
  A float of the program is a finite double, an infinity or NaN.  \<open>fl x\<close> is the double
  nearest to the real \<open>x\<close>: doubles around \<open>x\<close> are the multiples of \<open>quantum x\<close>, which
  is \<open>2\<close> to the power of the binary exponent of \<open>x\<close> less 52, and not below
  \<open>2 powi (- 1074)\<close>; a tie goes to the even multiple; a result of magnitude \<open>2 ^ 1024\<close>
  is an infinity.  The sign of a zero is not represented.
\<close>

datatype npfloat = Fin real | PInf | NInf | NaN

definition round_half_even :: "real \<Rightarrow> int" where
  "round_half_even y =
     (let f = \<lfloor>y\<rfloor>; r = y - real_of_int f
      in if r < 1 / 2 then f
         else if 1 / 2 < r then f + 1
         else if even f then f else f + 1)"

definition quantum :: "real \<Rightarrow> real" where
  "quantum x = 2 powi (max \<lfloor>log 2 \<bar>x\<bar>\<rfloor> (- 1022) - 52)"

definition fl :: "real \<Rightarrow> npfloat" where
  "fl x =
     (if x = 0 then Fin 0
      else (let r = real_of_int (round_half_even (x / quantum x)) * quantum x
            in if 2 ^ 1024 \<le> r then PInf
               else if r \<le> - (2 ^ 1024) then NInf
               else Fin r))"

text \<open>The same for a value known to stay in range: out of range it is left as it is.\<close>

definition fl_real :: "real \<Rightarrow> real" where
  "fl_real x = (case fl x of Fin r \<Rightarrow> r | _ \<Rightarrow> x)"

text \<open>
  The arithmetic of doubles: the exact result, rounded; the IEEE rules for infinities and
  NaN; a zero divisor counts as positive zero.  Each \<^theory_text>\<open>fun\<close> reads top down.
\<close>

fun np_neg :: "npfloat \<Rightarrow> npfloat" where
  "np_neg (Fin x) = Fin (- x)"
| "np_neg PInf = NInf"
| "np_neg NInf = PInf"
| "np_neg NaN = NaN"

fun np_add :: "npfloat \<Rightarrow> npfloat \<Rightarrow> npfloat" where
  "np_add (Fin x) (Fin y) = fl (x + y)"
| "np_add NaN b = NaN"
| "np_add a NaN = NaN"
| "np_add PInf NInf = NaN"
| "np_add NInf PInf = NaN"
| "np_add PInf b = PInf"
| "np_add a PInf = PInf"
| "np_add NInf b = NInf"
| "np_add a NInf = NInf"

definition np_sub :: "npfloat \<Rightarrow> npfloat \<Rightarrow> npfloat" where
  "np_sub a b = np_add a (np_neg b)"

fun np_mul :: "npfloat \<Rightarrow> npfloat \<Rightarrow> npfloat" where
  "np_mul (Fin x) (Fin y) = fl (x * y)"
| "np_mul NaN b = NaN"
| "np_mul a NaN = NaN"
| "np_mul (Fin x) b = (if x = 0 then NaN else if 0 < x then b else np_neg b)"
| "np_mul a (Fin y) = (if y = 0 then NaN else if 0 < y then a else np_neg a)"
| "np_mul a b = (if a = b then PInf else NInf)"

fun np_div :: "npfloat \<Rightarrow> npfloat \<Rightarrow> npfloat" where
  "np_div (Fin x) (Fin y) =
     (if y = 0 then (if 0 < x then PInf else if x < 0 then NInf else NaN) else fl (x / y))"
| "np_div NaN b = NaN"
| "np_div a NaN = NaN"
| "np_div (Fin x) b = Fin 0"
| "np_div a (Fin y) = (if 0 \<le> y then a else np_neg a)"
| "np_div a b = NaN"

text \<open>\<open><\<close> and \<open><=\<close> on floats are false as soon as an operand is NaN.\<close>

fun np_less :: "npfloat \<Rightarrow> npfloat \<Rightarrow> bool" where
  "np_less (Fin x) (Fin y) = (x < y)"
| "np_less NaN b = False"
| "np_less a NaN = False"
| "np_less a NInf = False"
| "np_less PInf b = False"
| "np_less a b = True"

definition np_le :: "npfloat \<Rightarrow> npfloat \<Rightarrow> bool" where
  "np_le a b = (a \<noteq> NaN \<and> b \<noteq> NaN \<and> \<not> np_less b a)"

text \<open>\<^verbatim>\<open>a / b\<close> on two Python floats raises on a zero divisor.\<close>

definition py_float_div :: "npfloat \<Rightarrow> npfloat \<Rightarrow> py_error + npfloat" where
  "py_float_div a b = (if b = Fin 0 then Inl ZeroDivisionError else Inr (np_div a b))"

subsection \<open>Other operations of Python\<close>

text \<open>The division of two floats where rounding is not represented.\<close>

definition py_truediv :: "real \<Rightarrow> real \<Rightarrow> py_error + real" where
  "py_truediv a b = (if b = 0 then Inl ZeroDivisionError else Inr (a / b))"

text \<open>
  The largest finite double is \<open>2 ^ 1024 - 2 ^ 971\<close>; a value of magnitude at least
  \<open>2 ^ 1024 - 2 ^ 970\<close> rounds past it.  Converting such a Python int to a float, and
  dividing two ints with such a quotient, raises OverflowError.
\<close>

definition DBL_LIMIT :: real where
  "DBL_LIMIT = 2 ^ 1024 - 2 ^ 970"

definition float_of_int :: "int \<Rightarrow> py_error + real" where
  "float_of_int n = (if DBL_LIMIT \<le> \<bar>real_of_int n\<bar> then Inl OverflowError else Inr (real_of_int n))"

definition int_truediv :: "int \<Rightarrow> int \<Rightarrow> py_error + real" where
  "int_truediv a b =
     (if b = 0 then Inl ZeroDivisionError
      else if DBL_LIMIT \<le> \<bar>real_of_int a / real_of_int b\<bar> then Inl OverflowError
      else Inr (real_of_int a / real_of_int b))"

text \<open>\<^verbatim>\<open>int(x)\<close> on a float truncates towards zero.\<close>

definition py_trunc :: "real \<Rightarrow> int" where
  "py_trunc x = (if 0 \<le> x then \<lfloor>x\<rfloor> else \<lceil>x\<rceil>)"

text \<open>
  A float whose value would lie beyond the largest finite double is an infinity, and
  \<^verbatim>\<open>int(x)\<close> raises OverflowError on it.
\<close>

definition float_to_int :: "real \<Rightarrow> py_error + int" where
  "float_to_int x = (if DBL_LIMIT \<le> \<bar>x\<bar> then Inl OverflowError else Inr (py_trunc x))"

text \<open>
  \<^verbatim>\<open>round(x, 2)\<close> on a double: the exact value of \<open>x\<close> is rounded to two decimals, a tie
  going to the even neighbour, and the result is the double nearest to that decimal.
\<close>

definition py_round2 :: "real \<Rightarrow> real" where
  "py_round2 x = fl_real (real_of_int (round_half_even (x * 100)) / 100)"

text \<open>Truth value of an \<^verbatim>\<open>Optional[float]\<close>: \<^verbatim>\<open>None\<close> and \<open>0.0\<close> are false.\<close>

definition truthy :: "real option \<Rightarrow> bool" where
  "truthy v = (case v of None \<Rightarrow> False | Some x \<Rightarrow> x \<noteq> 0)"

text \<open>\<^verbatim>\<open>xs[:n]\<close>: a negative bound counts from the end.\<close>

definition slice_to :: "int \<Rightarrow> 'a list \<Rightarrow> 'a list" where
  "slice_to n xs = (if 0 \<le> n then take (nat n) xs else take (length xs - nat (- n)) xs)"

text \<open>\<^verbatim>\<open>xs[-1]\<close> and \<^verbatim>\<open>series.iloc[-1]\<close> raise IndexError on an empty sequence.\<close>

definition last_item :: "'a list \<Rightarrow> py_error + 'a" where
  "last_item xs = (if xs = [] then Inl IndexError else Inr (last xs))"

text \<open>
  \<^verbatim>\<open>sorted(xs, key=k, reverse=True)\<close>: Python's sort is stable, and with
  \<^verbatim>\<open>reverse=True\<close> elements of equal key still keep their input order.  That is the stable
  ascending sort on the negated key.
\<close>

definition sorted_desc :: "('a \<Rightarrow> real) \<Rightarrow> 'a list \<Rightarrow> 'a list" where
  "sorted_desc k xs = sort_key (\<lambda>x. - k x) xs"

text \<open>
  \<^verbatim>\<open>max(xs, key=k)\<close> and \<^verbatim>\<open>min(xs, key=k)\<close> on a non-empty sequence return the first
  element whose key is extreme: the running choice changes only on a strictly better key.
\<close>

fun max_by :: "('a \<Rightarrow> real) \<Rightarrow> 'a \<Rightarrow> 'a list \<Rightarrow> 'a" where
  "max_by k best [] = best"
| "max_by k best (x # xs) = max_by k (if k best < k x then x else best) xs"

fun min_by :: "('a \<Rightarrow> real) \<Rightarrow> 'a \<Rightarrow> 'a list \<Rightarrow> 'a" where
  "min_by k best [] = best"
| "min_by k best (x # xs) = min_by k (if k x < k best then x else best) xs"

text \<open>
  A dict is an association list in insertion order.  \<^verbatim>\<open>d.get(k, default)\<close>,
  \<^verbatim>\<open>d[k] = v\<close> (an existing key keeps its place), \<^verbatim>\<open>d.values()\<close> and \<^verbatim>\<open>d.keys()\<close>:
\<close>

definition dict_get :: "('k \<times> 'v) list \<Rightarrow> 'k \<Rightarrow> 'v \<Rightarrow> 'v" where
  "dict_get d k dflt = (case map_of d k of None \<Rightarrow> dflt | Some v \<Rightarrow> v)"

definition dict_set :: "'k \<Rightarrow> 'v \<Rightarrow> ('k \<times> 'v) list \<Rightarrow> ('k \<times> 'v) list" where
  "dict_set k v d = AList.update k v d"

definition dict_values :: "('k \<times> 'v) list \<Rightarrow> 'v list" where
  "dict_values d = map snd d"

definition dict_keys :: "('k \<times> 'v) list \<Rightarrow> 'k list" where
  "dict_keys d = map fst d"

text \<open>
  \<^verbatim>\<open>np.random.seed(hash(symbol) % 2**32)\<close> fixes a stream of draws for the symbol.  The
  stream itself belongs to numpy and to the interpreter's string hash, so it is a parameter:
  \<open>u i\<close> is the \<open>i\<close>-th unit sample, and \<^verbatim>\<open>np.random.uniform(lo, hi)\<close> scales it.
\<close>

definition uniform :: "(nat \<Rightarrow> real) \<Rightarrow> nat \<Rightarrow> real \<Rightarrow> real \<Rightarrow> real" where
  "uniform u i lo hi = lo + (hi - lo) * u i"

section \<open>config.py\<close>

record ScannerConfig =
  MAX_SYMBOLS_PER_SCAN :: int
  MIN_PRICE :: real
  MAX_PRICE :: real
  MIN_VOLUME_MULTIPLE :: real
  MIN_SCORE_THRESHOLD :: real
  VWAP_MOMENTUM_WEIGHT :: real
  OPTIONS_PRESSURE_WEIGHT :: real
  VOLUME_WEIGHT :: real
  FLOAT_WEIGHT :: real
  TIMING_WEIGHT :: real
  MAX_DISTANCE_FROM_HOD_LOD :: real
  MIN_PROBABILITY_THRESHOLD :: real
  MIN_FLOAT_SIZE :: int
  MAX_FLOAT_SIZE :: int

definition config :: ScannerConfig where
  "config = \<lparr> MAX_SYMBOLS_PER_SCAN = 3, MIN_PRICE = 2, MAX_PRICE = 500,
     MIN_VOLUME_MULTIPLE = 2, MIN_SCORE_THRESHOLD = 70,
     VWAP_MOMENTUM_WEIGHT = 25, OPTIONS_PRESSURE_WEIGHT = 30, VOLUME_WEIGHT = 20,
     FLOAT_WEIGHT = 15, TIMING_WEIGHT = 10,
     MAX_DISTANCE_FROM_HOD_LOD = 20 / 100, MIN_PROBABILITY_THRESHOLD = 65 / 100,
     MIN_FLOAT_SIZE = 1000000, MAX_FLOAT_SIZE = 20000000 \<rparr>"

section \<open>utils.py\<close>

record MarketData =
  symbol :: string
  price :: real
  volume :: int
  vwap :: real
  high :: real
  low :: real
  "open" :: real
  timestamp :: int

record OptionsData =
  symbol :: string
  strikes :: "real list"
  calls_volume :: "(real \<times> int) list"
  puts_volume :: "(real \<times> int) list"
  calls_oi :: "(real \<times> int) list"
  puts_oi :: "(real \<times> int) list"
  iv :: "(real \<times> real) list"
  timestamp :: int

section \<open>signals/fuel.py\<close>

record FundamentalData =
  symbol :: string
  float_shares :: int
  short_percent :: real
  short_shares :: int
  borrow_fee :: real
  avg_volume :: int
  market_cap :: real
  insider_ownership :: real

record FuelSignal =
  low_float :: bool
  high_short_interest :: bool
  high_borrow_cost :: bool
  volume_surge :: bool
  relative_volume :: real
  short_squeeze_score :: real
  fuel_factors :: "string list"
  score :: real

definition generate_synthetic_fundamentals ::
    "(string \<Rightarrow> nat \<Rightarrow> real) \<Rightarrow> MarketData \<Rightarrow> py_error + FundamentalData" where
  "generate_synthetic_fundamentals rng market_data =
     (let u = rng (MarketData.symbol market_data);
          base_float = uniform u 0 5000000 50000000;
          short_percent' = uniform u 1 5 40;
          borrow_fee' = uniform u 2 10 200
      in try_bind (float_of_int (volume market_data)) (\<lambda>vol.
           let avg_volume' = vol * uniform u 3 (1 / 2) 2;
               market_cap' = price market_data * base_float;
               insider_ownership' = uniform u 4 5 50
           in try_bind (float_to_int base_float) (\<lambda>float_shares'.
              try_bind (float_to_int (base_float * short_percent' / 100)) (\<lambda>short_shares'.
              try_bind (float_to_int avg_volume') (\<lambda>avg_volume''.
                Inr \<lparr> FundamentalData.symbol = MarketData.symbol market_data,
                      float_shares = float_shares',
                      short_percent = short_percent',
                      short_shares = short_shares',
                      borrow_fee = borrow_fee',
                      avg_volume = avg_volume'',
                      market_cap = market_cap',
                      insider_ownership = insider_ownership' \<rparr>)))))"

definition calculate_squeeze_score :: "FundamentalData \<Rightarrow> real \<Rightarrow> real" where
  "calculate_squeeze_score fundamental_data relative_volume' =
     (let s0 = 0;
          s1 = s0 + (if float_shares fundamental_data < 5000000 then 30
                     else if float_shares fundamental_data < 10000000 then 25
                     else if float_shares fundamental_data < 20000000 then 15 else 0);
          s2 = s1 + (if short_percent fundamental_data > 30 then 25
                     else if short_percent fundamental_data > 20 then 20
                     else if short_percent fundamental_data > 15 then 10 else 0);
          s3 = s2 + (if borrow_fee fundamental_data > 100 then 20
                     else if borrow_fee fundamental_data > 50 then 15
                     else if borrow_fee fundamental_data > 25 then 5 else 0);
          s4 = s3 + (if relative_volume' > 5 then 15
                     else if relative_volume' > 3 then 10
                     else if relative_volume' > 2 then 5 else 0);
          s5 = s4 + (if insider_ownership fundamental_data > 40 then 10
                     else if insider_ownership fundamental_data > 30 then 5 else 0)
      in min 100 s5)"

definition identify_fuel_factors ::
    "bool \<Rightarrow> bool \<Rightarrow> bool \<Rightarrow> bool \<Rightarrow> FundamentalData \<Rightarrow> string list" where
  "identify_fuel_factors low_float' high_short_interest' high_borrow_cost' volume_surge'
       fundamental_data =
     (if low_float' then
        (if float_shares fundamental_data < 5000000 then [''micro_float'']
         else if float_shares fundamental_data < 10000000 then [''small_float'']
         else [''low_float''])
      else [])
     @ (if high_short_interest' then
          (if short_percent fundamental_data > 30 then [''extreme_short_interest'']
           else if short_percent fundamental_data > 20 then [''high_short_interest'']
           else [''elevated_short_interest''])
        else [])
     @ (if high_borrow_cost' then
          (if borrow_fee fundamental_data > 100 then [''extreme_borrow_cost'']
           else [''high_borrow_cost''])
        else [])
     @ (if volume_surge' then [''volume_surge''] else [])
     @ (if insider_ownership fundamental_data > 40 then [''high_insider_ownership''] else [])
     @ (if float_shares fundamental_data < 5000000 \<and> short_percent fundamental_data > 25
        then [''squeeze_setup''] else [])"

definition calculate_fuel_score ::
    "bool \<Rightarrow> bool \<Rightarrow> bool \<Rightarrow> bool \<Rightarrow> real \<Rightarrow> real \<Rightarrow> real" where
  "calculate_fuel_score low_float' high_short_interest' high_borrow_cost' volume_surge'
       relative_volume' squeeze_score =
     (let s0 = 0;
          s1 = s0 + (if low_float' then 25 else 0);
          s2 = s1 + (if high_short_interest' then 25 else 0);
          s3 = s2 + (if high_borrow_cost' then 20 else 0);
          s4 = s3 + (if volume_surge' then min 20 ((relative_volume' - 2) * 5) else 0);
          s5 = s4 + min 10 (squeeze_score / 10)
      in min 100 s5)"

text \<open>The body of the \<^verbatim>\<open>try\<close> block of \<^verbatim>\<open>FuelEngine.analyze\<close>.\<close>

definition fuel_analyze_try ::
    "ScannerConfig \<Rightarrow> (string \<Rightarrow> nat \<Rightarrow> real) \<Rightarrow> MarketData \<Rightarrow> FundamentalData option
       \<Rightarrow> py_error + FuelSignal" where
  "fuel_analyze_try cfg rng market_data fundamental_data =
     try_bind (case fundamental_data of
                 None \<Rightarrow> generate_synthetic_fundamentals rng market_data
               | Some fd \<Rightarrow> Inr fd) (\<lambda>fd.
       let low_float' = float_shares fd < MAX_FLOAT_SIZE cfg;
           high_short_interest' = short_percent fd > 15;
           high_borrow_cost' = borrow_fee fd > 50
       in try_bind (if avg_volume fd > 0 then int_truediv (volume market_data) (avg_volume fd)
                    else Inr 1) (\<lambda>relative_volume'.
            let volume_surge' = relative_volume' > MIN_VOLUME_MULTIPLE cfg;
                squeeze_score = calculate_squeeze_score fd relative_volume';
                fuel_factors' = identify_fuel_factors low_float' high_short_interest'
                                  high_borrow_cost' volume_surge' fd;
                score' = calculate_fuel_score low_float' high_short_interest'
                           high_borrow_cost' volume_surge' relative_volume' squeeze_score
            in Inr \<lparr> low_float = low_float',
                     high_short_interest = high_short_interest',
                     high_borrow_cost = high_borrow_cost',
                     volume_surge = volume_surge',
                     relative_volume = relative_volume',
                     short_squeeze_score = squeeze_score,
                     fuel_factors = fuel_factors',
                     FuelSignal.score = score' \<rparr>))"

definition neutral_fuel_signal :: FuelSignal where
  "neutral_fuel_signal =
     \<lparr> low_float = False, high_short_interest = False, high_borrow_cost = False,
       volume_surge = False, relative_volume = 1, short_squeeze_score = 0,
       fuel_factors = [], FuelSignal.score = 0 \<rparr>"

text \<open>\<^verbatim>\<open>FuelEngine.analyze\<close>: the \<^verbatim>\<open>except Exception\<close> clause returns the neutral signal.\<close>

definition fuel_analyze ::
    "ScannerConfig \<Rightarrow> (string \<Rightarrow> nat \<Rightarrow> real) \<Rightarrow> MarketData \<Rightarrow> FundamentalData option
       \<Rightarrow> FuelSignal" where
  "fuel_analyze cfg rng market_data fundamental_data =
     (case fuel_analyze_try cfg rng market_data fundamental_data of
        Inl e \<Rightarrow> neutral_fuel_signal
      | Inr signal \<Rightarrow> signal)"

section \<open>signals/pressure.py\<close>

record GammaWall =
  strike :: real
  gamma_value :: real
  net_positioning :: real
  distance_from_price :: real
  probability_reach :: real

text \<open>The put/call ratio is a float that may be \<^verbatim>\<open>float('inf')\<close>.\<close>

datatype ratio = Finite real | Infinite

fun ratio_less :: "ratio \<Rightarrow> real \<Rightarrow> bool" where
  "ratio_less (Finite x) c = (x < c)"
| "ratio_less Infinite c = False"

fun ratio_greater :: "ratio \<Rightarrow> real \<Rightarrow> bool" where
  "ratio_greater (Finite x) c = (c < x)"
| "ratio_greater Infinite c = True"

record PressureSignal =
  target_strike :: "real option"
  probability_reach :: real
  dealer_flow :: string
  nearest_walls :: "GammaWall list"
  max_pain :: real
  put_call_ratio :: ratio
  score :: real

text \<open>
  \<^verbatim>\<open>_generate_synthetic_options\<close>: the strikes, then one pass over them that fills the five
  dicts, drawing five samples per strike in the order of the source.  Each \<^verbatim>\<open>int(...)\<close>
  of the pass is a \<open>float_to_int\<close>.
\<close>

definition synthetic_strikes :: "real \<Rightarrow> real list" where
  "synthetic_strikes current_price =
     filter (\<lambda>strike'. strike' > 0)
       (map (\<lambda>i. py_round2 (fl_real (current_price + real_of_int i * (1 / 2)))) [-10 .. 10])"

fun synthetic_fill ::
    "(nat \<Rightarrow> real) \<Rightarrow> real \<Rightarrow> real list \<Rightarrow> nat \<Rightarrow> OptionsData \<Rightarrow> py_error + OptionsData" where
  "synthetic_fill u current_price [] n od = Inr od"
| "synthetic_fill u current_price (strike' # rest) n od =
     (case py_truediv \<bar>strike' - current_price\<bar> current_price of
        Inl e \<Rightarrow> Inl e
      | Inr distance \<Rightarrow>
     (case float_to_int (1000 * exp (- distance * 10)) of
        Inl e \<Rightarrow> Inl e
      | Inr volume_level \<Rightarrow>
     (case float_to_int (5000 * exp (- distance * 8)) of
        Inl e \<Rightarrow> Inl e
      | Inr oi_level \<Rightarrow>
     (let base_volume = max 10 volume_level;
          base_oi = max 50 oi_level
      in case float_to_int (real_of_int base_volume * uniform u n (1 / 2) 2) of
        Inl e \<Rightarrow> Inl e
      | Inr cv \<Rightarrow>
     (case float_to_int (real_of_int base_volume * uniform u (n + 1) (1 / 2) 2) of
        Inl e \<Rightarrow> Inl e
      | Inr pv \<Rightarrow>
     (case float_to_int (real_of_int base_oi * uniform u (n + 2) (1 / 2) 2) of
        Inl e \<Rightarrow> Inl e
      | Inr co \<Rightarrow>
     (case float_to_int (real_of_int base_oi * uniform u (n + 3) (1 / 2) 2) of
        Inl e \<Rightarrow> Inl e
      | Inr po \<Rightarrow>
          (let base_iv = 3 / 10 + distance * 2;
               v = max (1 / 10) (base_iv + uniform u (n + 4) (- 1 / 10) (1 / 10))
           in synthetic_fill u current_price rest (n + 5)
                (od\<lparr> calls_volume := dict_set strike' cv (calls_volume od),
                      puts_volume := dict_set strike' pv (puts_volume od),
                      calls_oi := dict_set strike' co (calls_oi od),
                      puts_oi := dict_set strike' po (puts_oi od),
                      iv := dict_set strike' v (iv od) \<rparr>)))))))))"

definition generate_synthetic_options ::
    "(string \<Rightarrow> nat \<Rightarrow> real) \<Rightarrow> MarketData \<Rightarrow> py_error + OptionsData" where
  "generate_synthetic_options rng market_data =
     (let current_price = price market_data;
          strikes' = synthetic_strikes current_price
      in synthetic_fill (rng (MarketData.symbol market_data)) current_price strikes' 0
           \<lparr> OptionsData.symbol = MarketData.symbol market_data, strikes = strikes',
             calls_volume = [], puts_volume = [], calls_oi = [], puts_oi = [], iv = [],
             OptionsData.timestamp = MarketData.timestamp market_data \<rparr>)"

text \<open>
  \<^verbatim>\<open>_calculate_probability_reach\<close>.  \<^verbatim>\<open>norm.cdf\<close> belongs to scipy and is the parameter
  \<open>cdf\<close>.  The numpy operations do not raise: they return NaN or an infinity, which the
  last line of the source then clamps with Python's \<^verbatim>\<open>min\<close> and \<^verbatim>\<open>max\<close>.  \<open>d2\<close> is
  therefore an \<open>npfloat\<close>; a zero divisor counts as positive zero.
\<close>

definition np_mean :: "real list \<Rightarrow> real option" where
  "np_mean xs = (if xs = [] then None else Some (sum_list xs / real (length xs)))"

definition calculate_d2 :: "real \<Rightarrow> real option \<Rightarrow> npfloat" where
  "calculate_d2 price_over_strike avg_iv =
     (case avg_iv of
        None \<Rightarrow> NaN
      | Some a \<Rightarrow>
          (let time_to_expiry = 1 / 365;
               denominator = a * sqrt time_to_expiry
           in if price_over_strike < 0 then NaN
              else if price_over_strike = 0 then (if denominator < 0 then PInf else NInf)
              else (let numerator = ln price_over_strike - (1 / 2) * a\<^sup>2 * time_to_expiry
                    in if denominator = 0
                       then (if 0 < numerator then PInf else if numerator < 0 then NInf else NaN)
                       else Fin (numerator / denominator))))"

fun norm_cdf :: "(real \<Rightarrow> real) \<Rightarrow> npfloat \<Rightarrow> real option" where
  "norm_cdf cdf (Fin x) = Some (cdf x)"
| "norm_cdf cdf PInf = Some 1"
| "norm_cdf cdf NInf = Some 0"
| "norm_cdf cdf NaN = None"

text \<open>
  \<^verbatim>\<open>max(0.01, min(0.99, probability))\<close>: Python's \<^verbatim>\<open>min(a, b)\<close> is \<open>b\<close> only if
  \<open>b < a\<close>, which is false for NaN, so a NaN probability gives 0.99.
\<close>

definition clamp_probability :: "real option \<Rightarrow> real" where
  "clamp_probability probability =
     (case probability of
        None \<Rightarrow> max (1 / 100) (99 / 100)
      | Some p \<Rightarrow> max (1 / 100) (min (99 / 100) p))"

definition calculate_probability_reach ::
    "(real \<Rightarrow> real) \<Rightarrow> real \<Rightarrow> real \<Rightarrow> OptionsData \<Rightarrow> py_error + real" where
  "calculate_probability_reach cdf current_price target_strike' options_data =
     (if target_strike' = current_price then Inr 1
      else
        (let avg_iv = np_mean (dict_values (iv options_data))
         in try_bind (py_truediv current_price target_strike') (\<lambda>price_over_strike.
              let d2 = calculate_d2 price_over_strike avg_iv;
                  probability =
                    (if target_strike' > current_price
                     then map_option (\<lambda>c. 1 - c) (norm_cdf cdf d2)
                     else norm_cdf cdf d2)
              in Inr (clamp_probability probability))))"

text \<open>
  \<^verbatim>\<open>_find_gamma_walls\<close>.  The open interests are Python ints; their products with the
  float \<open>gamma_factor\<close> convert them to floats first, calls before puts.
\<close>

fun find_gamma_walls_loop ::
    "(real \<Rightarrow> real) \<Rightarrow> real \<Rightarrow> OptionsData \<Rightarrow> real list \<Rightarrow> py_error + GammaWall list" where
  "find_gamma_walls_loop cdf current_price options_data [] = Inr []"
| "find_gamma_walls_loop cdf current_price options_data (strike' # rest) =
     (let calls_oi' = dict_get (calls_oi options_data) strike' 0;
          puts_oi' = dict_get (puts_oi options_data) strike' 0
      in case py_truediv \<bar>strike' - current_price\<bar> current_price of
           Inl e \<Rightarrow> Inl e
         | Inr distance \<Rightarrow>
             (let gamma_factor = exp (- distance * 5)
              in case float_of_int calls_oi' of
                   Inl e \<Rightarrow> Inl e
                 | Inr calls \<Rightarrow>
                     (case float_of_int puts_oi' of
                        Inl e \<Rightarrow> Inl e
                      | Inr puts \<Rightarrow>
                          (let net_gamma = calls * gamma_factor - puts * gamma_factor
                           in if \<bar>net_gamma\<bar> > 1000 then
                                (case calculate_probability_reach cdf current_price strike'
                                        options_data of
                                   Inl e \<Rightarrow> Inl e
                                 | Inr probability \<Rightarrow>
                                     (case find_gamma_walls_loop cdf current_price options_data
                                             rest of
                                        Inl e \<Rightarrow> Inl e
                                      | Inr walls \<Rightarrow>
                                          Inr (\<lparr> strike = strike', gamma_value = \<bar>net_gamma\<bar>,
                                                  net_positioning = net_gamma,
                                                  distance_from_price = distance,
                                                  GammaWall.probability_reach = probability \<rparr>
                                               # walls)))
                              else find_gamma_walls_loop cdf current_price options_data rest))))"

definition find_gamma_walls ::
    "(real \<Rightarrow> real) \<Rightarrow> MarketData \<Rightarrow> OptionsData \<Rightarrow> py_error + GammaWall list" where
  "find_gamma_walls cdf market_data options_data =
     try_bind (find_gamma_walls_loop cdf (price market_data) options_data (strikes options_data))
       (\<lambda>walls. Inr (sorted_desc gamma_value walls))"

definition find_target_wall :: "real \<Rightarrow> GammaWall list \<Rightarrow> GammaWall option" where
  "find_target_wall current_price walls =
     (case walls of
        [] \<Rightarrow> None
      | first # _ \<Rightarrow>
          (case filter (\<lambda>wall. distance_from_price wall < 15 / 100
                               \<and> GammaWall.probability_reach wall > 3 / 10) walls of
             [] \<Rightarrow> Some first
           | c # cs \<Rightarrow>
               Some (max_by (\<lambda>w. GammaWall.probability_reach w * gamma_value w) c cs)))"

text \<open>
  \<^verbatim>\<open>_calculate_max_pain\<close>.  The body of its loop for one strike: an open interest is
  converted to a float only where its product is taken.
\<close>

definition total_pain :: "real \<Rightarrow> OptionsData \<Rightarrow> real \<Rightarrow> py_error + real" where
  "total_pain current_price options_data strike' =
     (let p0 = 0
      in try_bind (if current_price > strike'
                   then try_bind (float_of_int (dict_get (calls_oi options_data) strike' 0))
                          (\<lambda>calls. Inr (p0 + calls * (current_price - strike')))
                   else Inr p0) (\<lambda>p1.
           if current_price < strike'
           then try_bind (float_of_int (dict_get (puts_oi options_data) strike' 0))
                  (\<lambda>puts. Inr (p1 + puts * (strike' - current_price)))
           else Inr p1))"

fun max_pain_levels_loop ::
    "real \<Rightarrow> OptionsData \<Rightarrow> real list \<Rightarrow> (real \<times> real) list \<Rightarrow> py_error + (real \<times> real) list" where
  "max_pain_levels_loop current_price options_data [] levels = Inr levels"
| "max_pain_levels_loop current_price options_data (strike' # rest) levels =
     (case total_pain current_price options_data strike' of
        Inl e \<Rightarrow> Inl e
      | Inr pain \<Rightarrow>
          max_pain_levels_loop current_price options_data rest (dict_set strike' pain levels))"

definition calculate_max_pain :: "real \<Rightarrow> OptionsData \<Rightarrow> py_error + real" where
  "calculate_max_pain current_price options_data =
     try_bind (max_pain_levels_loop current_price options_data (strikes options_data) [])
       (\<lambda>max_pain_levels.
          case dict_keys max_pain_levels of
            [] \<Rightarrow> Inr current_price
          | s # ss \<Rightarrow> Inr (min_by (\<lambda>s. dict_get max_pain_levels s 0) s ss))"

definition calculate_put_call_ratio :: "OptionsData \<Rightarrow> py_error + ratio" where
  "calculate_put_call_ratio options_data =
     (let total_call_volume = sum_list (dict_values (calls_volume options_data));
          total_put_volume = sum_list (dict_values (puts_volume options_data))
      in if total_call_volume = 0
         then Inr (if total_put_volume > 0 then Infinite else Finite 1)
         else try_bind (int_truediv total_put_volume total_call_volume) (\<lambda>q. Inr (Finite q)))"

definition determine_dealer_flow :: "GammaWall list \<Rightarrow> ratio \<Rightarrow> real \<Rightarrow> real \<Rightarrow> string" where
  "determine_dealer_flow walls pcr current_price max_pain' =
     (case walls of
        [] \<Rightarrow> ''neutral''
      | strongest_wall # _ \<Rightarrow>
          (let bullish_score =
                 (if net_positioning strongest_wall > 0 \<and> strike strongest_wall > current_price
                  then 2 else 0)
                 + (if ratio_less pcr (8 / 10) then 1 else 0)
                 + (if max_pain' > current_price then 1 else (0::int));
               bearish_score =
                 (if net_positioning strongest_wall < 0 \<and> strike strongest_wall < current_price
                  then 2 else 0)
                 + (if ratio_greater pcr (12 / 10) then 1 else 0)
                 + (if max_pain' < current_price then 1 else (0::int))
           in if bullish_score > bearish_score + 1 then ''bullish''
              else if bearish_score > bullish_score + 1 then ''bearish''
              else ''neutral''))"

definition calculate_pressure_score :: "real \<Rightarrow> string \<Rightarrow> ratio \<Rightarrow> GammaWall list \<Rightarrow> real" where
  "calculate_pressure_score probability dealer_flow' pcr walls =
     (let s0 = 0;
          s1 = s0 + probability * 40;
          s2 = s1 + (if dealer_flow' = ''bullish'' then 30
                     else if dealer_flow' = ''bearish'' then 20 else 0);
          s3 = s2 + (if ratio_less pcr (7 / 10) then 20
                     else if ratio_less pcr 1 then 15
                     else if ratio_greater pcr (15 / 10) then 10 else 0);
          s4 = s3 + (case walls of [] \<Rightarrow> 0
                     | strongest # _ \<Rightarrow> min 10 (gamma_value strongest / 5000))
      in min 100 s4)"

text \<open>The body of the \<^verbatim>\<open>try\<close> block of \<^verbatim>\<open>PressureEngine.analyze\<close>.\<close>

definition pressure_analyze_try ::
    "(string \<Rightarrow> nat \<Rightarrow> real) \<Rightarrow> (real \<Rightarrow> real) \<Rightarrow> MarketData \<Rightarrow> OptionsData option
       \<Rightarrow> py_error + PressureSignal" where
  "pressure_analyze_try rng cdf market_data options_data =
     try_bind (case options_data of
                 None \<Rightarrow> generate_synthetic_options rng market_data
               | Some od \<Rightarrow> Inr od) (\<lambda>od.
     try_bind (find_gamma_walls cdf market_data od) (\<lambda>gamma_walls.
       let target_wall = find_target_wall (price market_data) gamma_walls
       in try_bind (calculate_max_pain (price market_data) od) (\<lambda>max_pain'.
          try_bind (calculate_put_call_ratio od) (\<lambda>pcr.
            let dealer_flow' = determine_dealer_flow gamma_walls pcr (price market_data) max_pain'
            in try_bind (case target_wall of
                           None \<Rightarrow> Inr (0, None)
                         | Some wall \<Rightarrow>
                             try_bind (calculate_probability_reach cdf (price market_data)
                                         (strike wall) od)
                               (\<lambda>p. Inr (p, Some (strike wall)))) (\<lambda>(probability, target).
                 let score' = calculate_pressure_score probability dealer_flow' pcr gamma_walls
                 in Inr \<lparr> target_strike = target,
                          PressureSignal.probability_reach = probability,
                          dealer_flow = dealer_flow',
                          nearest_walls = slice_to 3 gamma_walls,
                          max_pain = max_pain',
                          put_call_ratio = pcr,
                          PressureSignal.score = score' \<rparr>)))))"

definition neutral_pressure_signal :: "MarketData \<Rightarrow> PressureSignal" where
  "neutral_pressure_signal market_data =
     \<lparr> target_strike = None, PressureSignal.probability_reach = 0, dealer_flow = ''neutral'',
       nearest_walls = [], max_pain = price market_data, put_call_ratio = Finite 1,
       PressureSignal.score = 0 \<rparr>"

definition pressure_analyze ::
    "(string \<Rightarrow> nat \<Rightarrow> real) \<Rightarrow> (real \<Rightarrow> real) \<Rightarrow> MarketData \<Rightarrow> OptionsData option
       \<Rightarrow> PressureSignal" where
  "pressure_analyze rng cdf market_data options_data =
     (case pressure_analyze_try rng cdf market_data options_data of
        Inl e \<Rightarrow> neutral_pressure_signal market_data
      | Inr signal \<Rightarrow> signal)"

section \<open>pandas series\<close>

text \<open>
  A \<^verbatim>\<open>pd.Series\<close> of floats is a list whose missing entries (NaN) are \<open>None\<close>.  An
  elementwise operation gives NaN wherever an operand is NaN; a division by zero gives a
  non-finite entry, which a series does not tell apart from NaN here.
\<close>

type_synonym series = "real option list"

definition nan_add :: "real option \<Rightarrow> real option \<Rightarrow> real option" where
  "nan_add a b = (case (a, b) of (Some x, Some y) \<Rightarrow> Some (x + y) | _ \<Rightarrow> None)"

definition nan_sub :: "real option \<Rightarrow> real option \<Rightarrow> real option" where
  "nan_sub a b = (case (a, b) of (Some x, Some y) \<Rightarrow> Some (x - y) | _ \<Rightarrow> None)"

definition nan_mul :: "real option \<Rightarrow> real option \<Rightarrow> real option" where
  "nan_mul a b = (case (a, b) of (Some x, Some y) \<Rightarrow> Some (x * y) | _ \<Rightarrow> None)"

definition nan_div :: "real option \<Rightarrow> real option \<Rightarrow> real option" where
  "nan_div a b =
     (case (a, b) of (Some x, Some y) \<Rightarrow> (if y = 0 then None else Some (x / y)) | _ \<Rightarrow> None)"

text \<open>A comparison with NaN is false.\<close>

definition nan_greater :: "real option \<Rightarrow> real \<Rightarrow> bool" where
  "nan_greater a c = (case a of None \<Rightarrow> False | Some x \<Rightarrow> c < x)"

text \<open>
  \<^verbatim>\<open>series.tail(n)\<close> is \<^verbatim>\<open>series.iloc[-n:]\<close>, and empty for \<open>n = 0\<close>: the last \<open>n\<close>
  entries, or all but the first \<open>-n\<close> for a negative \<open>n\<close>.
\<close>

definition tail :: "int \<Rightarrow> 'a list \<Rightarrow> 'a list" where
  "tail n xs =
     (if n = 0 then []
      else if 0 < n then drop (length xs - nat n) xs
      else drop (nat (- n)) xs)"

text \<open>
  \<^verbatim>\<open>series.rolling(window).agg()\<close>: entry \<open>i\<close> aggregates the \<open>window\<close> entries ending at
  \<open>i\<close>, and is NaN while fewer than \<open>window\<close> entries exist or when one of them is NaN.
\<close>

definition rolling :: "nat \<Rightarrow> (real list \<Rightarrow> real option) \<Rightarrow> series \<Rightarrow> series" where
  "rolling window agg xs =
     map (\<lambda>i. if i + 1 < window then None
               else (case those (take window (drop (i + 1 - window) xs)) of
                       None \<Rightarrow> None
                     | Some vs \<Rightarrow> agg vs))
       [0 ..< length xs]"

definition mean :: "real list \<Rightarrow> real option" where
  "mean vs = (if vs = [] then None else Some (sum_list vs / real (length vs)))"

text \<open>The sample standard deviation (\<^verbatim>\<open>ddof=1\<close>), NaN for fewer than two values.\<close>

definition std :: "real list \<Rightarrow> real option" where
  "std vs =
     (if length vs < 2 then None
      else (let m = sum_list vs / real (length vs)
            in Some (sqrt (sum_list (map (\<lambda>v. (v - m)\<^sup>2) vs) / real (length vs - 1)))))"

definition calculate_bollinger_bands :: "series \<Rightarrow> nat \<Rightarrow> real \<Rightarrow> series \<times> series \<times> series" where
  "calculate_bollinger_bands prices period std_dev =
     (let sma = rolling period mean prices;
          sd = rolling period std prices;
          upper_band = map2 nan_add sma (map (\<lambda>v. nan_mul v (Some std_dev)) sd);
          lower_band = map2 nan_sub sma (map (\<lambda>v. nan_mul v (Some std_dev)) sd)
      in (upper_band, sma, lower_band))"

section \<open>signals/ignition.py\<close>

record IgnitionSignal =
  vwap_momentum :: bool
  expansion_energy :: bool
  entry_timing :: bool
  vwap_spread_slope :: "real option"
  band_expansion_ratio :: "real option"
  distance_from_extremes :: real
  score :: real

definition calculate_vwap_spread :: "series \<Rightarrow> real \<Rightarrow> series" where
  "calculate_vwap_spread prices current_vwap =
     (let synthetic_vwap = rolling 20 mean prices
      in map2 nan_div (map2 nan_sub prices synthetic_vwap) synthetic_vwap)"

text \<open>
  \<^verbatim>\<open>np.polyfit(x, y, 1)[0]\<close> with \<open>x = 0, 1, ...\<close>: the least-squares slope.  What numpy
  does when \<open>y\<close> holds a non-finite entry (raise LinAlgError, or return NaN) depends on the
  linear-algebra library underneath, so that outcome is the parameter \<open>on_nonfinite\<close>.
\<close>

definition polyfit_slope :: "(py_error + real option) \<Rightarrow> series \<Rightarrow> py_error + real option" where
  "polyfit_slope on_nonfinite y =
     (case those y of
        None \<Rightarrow> on_nonfinite
      | Some [] \<Rightarrow> Inl TypeError
      | Some ys \<Rightarrow>
          (let n = length ys;
               x = map real [0 ..< n];
               x_mean = sum_list x / real n;
               y_mean = sum_list ys / real n
           in Inr (Some (sum_list (map2 (\<lambda>a b. (a - x_mean) * (b - y_mean)) x ys)
                         / sum_list (map (\<lambda>a. (a - x_mean)\<^sup>2) x)))))"

definition calculate_slope ::
    "(py_error + real option) \<Rightarrow> series \<Rightarrow> nat \<Rightarrow> py_error + real option" where
  "calculate_slope on_nonfinite series' periods =
     (if length series' < periods then Inr (Some 0)
      else polyfit_slope on_nonfinite (tail (int periods) series'))"

text \<open>
  \<^verbatim>\<open>_generate_synthetic_history\<close>: \<open>z i\<close> is the \<open>i\<close>-th standard normal draw of the
  symbol's stream, so \<^verbatim>\<open>np.random.normal(0, 0.02, periods)\<close> is \<open>0 + 0.02 * z i\<close>.
\<close>

definition generate_synthetic_history ::
    "(string \<Rightarrow> nat \<Rightarrow> real) \<Rightarrow> MarketData \<Rightarrow> nat \<Rightarrow> real list" where
  "generate_synthetic_history normal market_data periods =
     (let z = normal (MarketData.symbol market_data);
          base_price = price market_data * (95 / 100);
          returns = map (\<lambda>i. 0 + (2 / 100) * z i) [0 ..< periods];
          prices = foldl (\<lambda>ps ret. ps @ [last ps * (1 + ret)]) [base_price] (drop 1 returns)
      in butlast prices @ [price market_data])"

definition calculate_ignition_score ::
    "ScannerConfig \<Rightarrow> real option \<Rightarrow> real option \<Rightarrow> real \<Rightarrow> bool \<Rightarrow> bool \<Rightarrow> bool
       \<Rightarrow> py_error + real" where
  "calculate_ignition_score cfg vwap_slope expansion_ratio distance vwap_momentum'
       expansion_energy' entry_timing' =
     (let s0 = 0;
          s1 = (if vwap_momentum'
                then s0 + (case vwap_slope of None \<Rightarrow> 40 | Some sl \<Rightarrow> min 40 (\<bar>sl\<bar> * 10000))
                else s0);
          s2 = (if expansion_energy'
                then s1 + (case expansion_ratio of None \<Rightarrow> 35 | Some r \<Rightarrow> min 35 ((r - 1) * 35))
                else s1)
      in try_bind (if entry_timing'
                   then try_bind (py_truediv (MAX_DISTANCE_FROM_HOD_LOD cfg - distance)
                                    (MAX_DISTANCE_FROM_HOD_LOD cfg))
                          (\<lambda>timing_score. Inr (s2 + timing_score * 25))
                   else Inr s2)
           (\<lambda>s3. Inr (min 100 s3)))"

text \<open>The body of the \<^verbatim>\<open>try\<close> block of \<^verbatim>\<open>IgnitionEngine.analyze\<close>.\<close>

definition ignition_analyze_try ::
    "ScannerConfig \<Rightarrow> (string \<Rightarrow> nat \<Rightarrow> real) \<Rightarrow> (py_error + real option) \<Rightarrow> MarketData
       \<Rightarrow> real list option \<Rightarrow> py_error + IgnitionSignal" where
  "ignition_analyze_try cfg normal on_nonfinite market_data historical_prices =
     (let prices = map Some (case historical_prices of
                               None \<Rightarrow> generate_synthetic_history normal market_data 100
                             | Some h \<Rightarrow> h);
          vwap_spread = calculate_vwap_spread prices (vwap market_data)
      in try_bind (calculate_slope on_nonfinite vwap_spread 10) (\<lambda>vwap_slope.
           case calculate_bollinger_bands prices 20 2 of (upper_band, sma, lower_band) \<Rightarrow>
           try_bind (last_item upper_band) (\<lambda>upper_last.
           try_bind (last_item lower_band) (\<lambda>lower_last.
             let current_expansion = nan_sub upper_last lower_last
             in try_bind (last_item (rolling 20 mean (map2 nan_sub upper_band lower_band)))
                  (\<lambda>historical_avg_expansion.
                let expansion_ratio =
                      (if nan_greater historical_avg_expansion 0
                       then nan_div current_expansion historical_avg_expansion
                       else Some 1)
                in try_bind (py_truediv \<bar>price market_data - high market_data\<bar> (price market_data))
                     (\<lambda>from_high.
                   try_bind (py_truediv \<bar>price market_data - low market_data\<bar> (price market_data))
                     (\<lambda>from_low.
                     let distance = min from_high from_low;
                         vwap_momentum' = nan_greater vwap_slope (1 / 1000);
                         expansion_energy' = nan_greater expansion_ratio (15 / 10);
                         entry_timing' = distance < MAX_DISTANCE_FROM_HOD_LOD cfg
                     in try_bind (calculate_ignition_score cfg vwap_slope expansion_ratio distance
                                    vwap_momentum' expansion_energy' entry_timing') (\<lambda>score'.
                          Inr \<lparr> vwap_momentum = vwap_momentum',
                                expansion_energy = expansion_energy',
                                entry_timing = entry_timing',
                                vwap_spread_slope = vwap_slope,
                                band_expansion_ratio = expansion_ratio,
                                distance_from_extremes = distance,
                                IgnitionSignal.score = score' \<rparr>))))))))"

definition neutral_ignition_signal :: IgnitionSignal where
  "neutral_ignition_signal =
     \<lparr> vwap_momentum = False, expansion_energy = False, entry_timing = False,
       vwap_spread_slope = Some 0, band_expansion_ratio = Some 1, distance_from_extremes = 1,
       IgnitionSignal.score = 0 \<rparr>"

definition ignition_analyze ::
    "ScannerConfig \<Rightarrow> (string \<Rightarrow> nat \<Rightarrow> real) \<Rightarrow> (py_error + real option) \<Rightarrow> MarketData
       \<Rightarrow> real list option \<Rightarrow> IgnitionSignal" where
  "ignition_analyze cfg normal on_nonfinite market_data historical_prices =
     (case ignition_analyze_try cfg normal on_nonfinite market_data historical_prices of
        Inl e \<Rightarrow> neutral_ignition_signal
      | Inr signal \<Rightarrow> signal)"

section \<open>scoring/composite.py\<close>

record CompositeScore =
  symbol :: string
  total_score :: real
  ignition_score :: real
  pressure_score :: real
  fuel_score :: real
  btc_benchmark_passed :: bool
  expected_return :: real
  btc_expected_return :: real
  probability_reach :: real
  target_price :: "real option"
  risk_reward_ratio :: real

definition calculate_combination_bonus ::
    "IgnitionSignal \<Rightarrow> PressureSignal \<Rightarrow> FuelSignal \<Rightarrow> real" where
  "calculate_combination_bonus ignition pressure fuel =
     (let strong_signals =
            (if IgnitionSignal.score ignition > 70 then 1 else 0)
            + (if PressureSignal.score pressure > 70 then 1 else 0)
            + (if FuelSignal.score fuel > 70 then 1 else (0::nat));
          b0 = 0;
          b1 = (if strong_signals \<ge> 3 then b0 + 15
                else if strong_signals \<ge> 2 then b0 + 8 else b0);
          b2 = (if vwap_momentum ignition \<and> PressureSignal.probability_reach pressure > 7 / 10
                then b1 + 5 else b1);
          b3 = (if low_float fuel \<and> high_short_interest fuel \<and> dealer_flow pressure = ''bullish''
                then b2 + 8 else b2);
          b4 = (if expansion_energy ignition \<and> volume_surge fuel then b3 + 5 else b3)
      in b4)"

definition calculate_weighted_score ::
    "ScannerConfig \<Rightarrow> IgnitionSignal \<Rightarrow> PressureSignal \<Rightarrow> FuelSignal \<Rightarrow> real" where
  "calculate_weighted_score cfg ignition pressure fuel =
     (let weighted_score =
            IgnitionSignal.score ignition * (VWAP_MOMENTUM_WEIGHT cfg / 100)
            + PressureSignal.score pressure * (OPTIONS_PRESSURE_WEIGHT cfg / 100)
            + FuelSignal.score fuel * (VOLUME_WEIGHT cfg / 100)
            + 0;
          bonus = calculate_combination_bonus ignition pressure fuel;
          final_score = min 100 (weighted_score + bonus)
      in final_score)"

definition estimate_price_move :: "MarketData \<Rightarrow> FuelSignal \<Rightarrow> py_error + real" where
  "estimate_price_move market_data fuel =
     (let m0 = 5 / 100;
          m1 = (if relative_volume fuel > 3 then m0 * (15 / 10)
                else if relative_volume fuel > 2 then m0 * (12 / 10) else m0)
      in try_bind (if high market_data > 0 \<and> low market_data > 0
                   then try_bind (py_truediv (high market_data - low market_data)
                                    (price market_data))
                          (\<lambda>daily_range. Inr (if daily_range > 15 / 100 then m1 * (13 / 10) else m1))
                   else Inr m1) (\<lambda>m2.
           let m3 = (if short_squeeze_score fuel > 80 then m2 * 2
                     else if short_squeeze_score fuel > 60 then m2 * (15 / 10) else m2)
           in Inr (min (50 / 100) m3)))"

definition composite_calculate_expected_return ::
    "MarketData \<Rightarrow> PressureSignal \<Rightarrow> FuelSignal \<Rightarrow> py_error + real \<times> real option" where
  "composite_calculate_expected_return market_data pressure fuel =
     (let current_price = price market_data
      in try_bind
           (if truthy (target_strike pressure) \<and> PressureSignal.probability_reach pressure > 5 / 10
            then (let target_price' = the (target_strike pressure)
                  in try_bind (py_truediv (target_price' - current_price) current_price)
                       (\<lambda>basic_return. Inr (target_price', basic_return)))
            else try_bind (estimate_price_move market_data fuel) (\<lambda>estimated_move.
                   Inr (current_price * (1 + estimated_move), estimated_move)))
           (\<lambda>(target_price', basic_return).
              let probability_adjusted_return =
                    basic_return * PressureSignal.probability_reach pressure;
                  result =
                    (if short_squeeze_score fuel > 70
                     then (let squeeze_multiplier = 1 + short_squeeze_score fuel / 200
                           in probability_adjusted_return * squeeze_multiplier)
                     else probability_adjusted_return)
              in Inr (result, Some target_price')))"

text \<open>
  \<^verbatim>\<open>_calculate_risk_reward\<close>, in the arithmetic of doubles: \<open>0.95\<close> is the double of that
  literal, and the product, the difference and the two quotients are rounded.
\<close>

definition calculate_risk_reward :: "real \<Rightarrow> real option \<Rightarrow> real \<Rightarrow> py_error + npfloat" where
  "calculate_risk_reward current_price target_price' expected_return' =
     (if \<not> truthy target_price' \<or> the target_price' \<le> current_price then Inr (Fin 1)
      else
        (let stop_loss = np_mul (Fin current_price) (fl (95 / 100))
         in try_bind (py_float_div (np_sub (Fin current_price) stop_loss) (Fin current_price))
              (\<lambda>potential_loss.
                 let potential_gain = Fin expected_return'
                 in if np_le potential_loss (Fin 0) then Inr (Fin 10)
                    else Inr (np_div potential_gain potential_loss))))"

text \<open>
  The key of the ranking, as Python evaluates it: three rounded products (\<open>0.7\<close> is the
  double of that literal) added from left to right, each sum rounded.
\<close>

definition ranking_key :: "CompositeScore \<Rightarrow> npfloat" where
  "ranking_key score' =
     np_add
       (np_add (np_mul (Fin (total_score score')) (fl (7 / 10)))
               (np_mul (Fin (CompositeScore.probability_reach score')) (Fin 30)))
       (np_mul (Fin (risk_reward_ratio score')) (Fin 5))"

text \<open>
  \<^verbatim>\<open>sorted(xs, key=k, reverse=True)\<close> on float keys.  Python's sort is stable, also with
  \<^verbatim>\<open>reverse=True\<close>: an element goes in front of the first one whose key is not greater
  than its own.  When a key is NaN the order that \<^verbatim>\<open>sorted\<close> returns depends on the inner
  workings of its algorithm; it is some rearrangement determined by the keys, for which
  the parameter \<open>nan_order\<close> stands: from the list of keys it gives the positions of the
  entries in the order of the output.
\<close>

fun insert_reverse :: "('a \<Rightarrow> npfloat) \<Rightarrow> 'a \<Rightarrow> 'a list \<Rightarrow> 'a list" where
  "insert_reverse k x [] = [x]"
| "insert_reverse k x (y # ys) =
     (if np_less (k x) (k y) then y # insert_reverse k x ys else x # y # ys)"

definition sorted_reverse ::
    "(npfloat list \<Rightarrow> nat list) \<Rightarrow> ('a \<Rightarrow> npfloat) \<Rightarrow> 'a list \<Rightarrow> 'a list" where
  "sorted_reverse nan_order k xs =
     (if NaN \<in> set (map k xs)
      then (let order = nan_order (map k xs)
            in if mset order = mset [0 ..< length xs] then map (\<lambda>i. xs ! i) order else xs)
      else foldr (insert_reverse k) xs [])"

text \<open>
  \<^verbatim>\<open>filter_and_rank\<close>.  Its loop keeps an entry or writes one debug message about it; the
  messages are the only trace a call leaves outside its result.
\<close>

datatype filter_message =
  Failed_benchmark string | Score_below_threshold string real | Probability_too_low string real

fun apply_filters ::
    "ScannerConfig \<Rightarrow> CompositeScore list \<Rightarrow> CompositeScore list \<times> filter_message list" where
  "apply_filters cfg [] = ([], [])"
| "apply_filters cfg (score' # rest) =
     (case apply_filters cfg rest of (filtered, messages) \<Rightarrow>
        if \<not> btc_benchmark_passed score'
        then (filtered, Failed_benchmark (CompositeScore.symbol score') # messages)
        else if total_score score' < MIN_SCORE_THRESHOLD cfg
        then (filtered,
              Score_below_threshold (CompositeScore.symbol score') (total_score score') # messages)
        else if CompositeScore.probability_reach score' < MIN_PROBABILITY_THRESHOLD cfg
        then (filtered,
              Probability_too_low (CompositeScore.symbol score')
                (CompositeScore.probability_reach score') # messages)
        else (score' # filtered, messages))"

definition filter_and_rank_logged ::
    "(npfloat list \<Rightarrow> nat list) \<Rightarrow> ScannerConfig \<Rightarrow> filter_message list \<Rightarrow> CompositeScore list
       \<Rightarrow> CompositeScore list \<times> filter_message list" where
  "filter_and_rank_logged nan_order cfg logged scores =
     (case apply_filters cfg scores of (filtered, messages) \<Rightarrow>
        (let ranked = sorted_reverse nan_order ranking_key filtered
         in (slice_to (MAX_SYMBOLS_PER_SCAN cfg) ranked, logged @ messages)))"

definition filter_and_rank ::
    "(npfloat list \<Rightarrow> nat list) \<Rightarrow> ScannerConfig \<Rightarrow> CompositeScore list \<Rightarrow> CompositeScore list" where
  "filter_and_rank nan_order cfg scores = fst (filter_and_rank_logged nan_order cfg [] scores)"

section \<open>scoring/benchmark.py\<close>

text \<open>
  \<^verbatim>\<open>int(s)\<close> on a string: surrounding whitespace, an optional sign, then decimal digits
  in which single underscores may separate digits; anything else raises ValueError, and so
  do more than 4300 digits (the interpreter's default limit).  Timeframe strings are
  ASCII: every character is below 128.
\<close>

definition is_space :: "char \<Rightarrow> bool" where
  "is_space c = ((of_char c :: nat) \<in> {9, 10, 11, 12, 13, 32})"

definition is_digit :: "char \<Rightarrow> bool" where
  "is_digit c = (48 \<le> (of_char c :: nat) \<and> (of_char c :: nat) \<le> 57)"

definition digit_value :: "char \<Rightarrow> nat" where
  "digit_value c = of_char c - 48"

fun digits_value :: "nat \<Rightarrow> string \<Rightarrow> nat option" where
  "digits_value acc [] = Some acc"
| "digits_value acc [c] = (if is_digit c then Some (10 * acc + digit_value c) else None)"
| "digits_value acc (c # d # ds) =
     (if is_digit c then digits_value (10 * acc + digit_value c) (d # ds)
      else if c = CHR ''_'' \<and> is_digit d then digits_value (10 * acc + digit_value d) ds
      else None)"

definition strip :: "string \<Rightarrow> string" where
  "strip s = rev (dropWhile is_space (rev (dropWhile is_space s)))"

definition py_int :: "string \<Rightarrow> py_error + int" where
  "py_int s =
     (let t = strip s;
          negative = (t \<noteq> [] \<and> hd t = CHR ''-'');
          body = (if t \<noteq> [] \<and> (hd t = CHR ''-'' \<or> hd t = CHR ''+'') then tl t else t)
      in if body = [] \<or> \<not> is_digit (hd body) then Inl ValueError
         else if 4300 < length (filter is_digit body) then Inl ValueError
         else (case digits_value 0 body of
                 None \<Rightarrow> Inl ValueError
               | Some n \<Rightarrow> Inr (if negative then - int n else int n)))"

record DataFrame =
  Close :: "real list"

text \<open>
  The returns and their statistics are numpy values that may be infinite (the return over a
  zero close) or NaN; their arithmetic is taken without rounding.  \<open>x_mul\<close> is the product
  and \<open>x_abs\<close> the absolute value.
\<close>

fun x_mul :: "npfloat \<Rightarrow> npfloat \<Rightarrow> npfloat" where
  "x_mul (Fin x) (Fin y) = Fin (x * y)"
| "x_mul NaN b = NaN"
| "x_mul a NaN = NaN"
| "x_mul (Fin x) b = (if x = 0 then NaN else if 0 < x then b else np_neg b)"
| "x_mul a (Fin y) = (if y = 0 then NaN else if 0 < y then a else np_neg a)"
| "x_mul a b = (if a = b then PInf else NInf)"

fun x_abs :: "npfloat \<Rightarrow> npfloat" where
  "x_abs (Fin x) = Fin \<bar>x\<bar>"
| "x_abs PInf = PInf"
| "x_abs NInf = PInf"
| "x_abs NaN = NaN"

text \<open>
  \<^verbatim>\<open>series.pct_change()\<close> is \<^verbatim>\<open>series / series.shift(1) - 1\<close>: the first entry has no
  predecessor and is NaN, and a zero predecessor gives an infinity, or NaN for \<open>0 / 0\<close>.
\<close>

definition change :: "real \<Rightarrow> real \<Rightarrow> npfloat" where
  "change prev cur =
     (if prev = 0 then (if 0 < cur then PInf else if cur < 0 then NInf else NaN)
      else Fin (cur / prev - 1))"

definition pct_change :: "real list \<Rightarrow> npfloat list" where
  "pct_change closes =
     (case closes of
        [] \<Rightarrow> []
      | _ # later \<Rightarrow> NaN # map2 change closes later)"

text \<open>
  \<^verbatim>\<open>series.mean()\<close> and \<^verbatim>\<open>series.std()\<close> skip the NaN entries.  The mean of the rest is
  their sum over their number, so an infinity among them makes it that infinity, and both
  infinities make it NaN; the sample standard deviation (\<^verbatim>\<open>ddof=1\<close>) is NaN for fewer than
  two entries and as soon as one of them is infinite.
\<close>

fun finite_values :: "npfloat list \<Rightarrow> real list" where
  "finite_values [] = []"
| "finite_values (Fin x # xs) = x # finite_values xs"
| "finite_values (_ # xs) = finite_values xs"

definition series_mean :: "npfloat list \<Rightarrow> npfloat" where
  "series_mean xs =
     (let vs = filter (\<lambda>x. x \<noteq> NaN) xs
      in if vs = [] then NaN
         else if PInf \<in> set vs \<and> NInf \<in> set vs then NaN
         else if PInf \<in> set vs then PInf
         else if NInf \<in> set vs then NInf
         else Fin (sum_list (finite_values vs) / real (length vs)))"

definition series_std :: "npfloat list \<Rightarrow> npfloat" where
  "series_std xs =
     (let vs = filter (\<lambda>x. x \<noteq> NaN) xs
      in if length vs < 2 then NaN
         else if PInf \<in> set vs \<or> NInf \<in> set vs then NaN
         else (case std (finite_values vs) of None \<Rightarrow> NaN | Some sd \<Rightarrow> Fin sd))"

text \<open>
  \<^verbatim>\<open>min(a, b)\<close> and \<^verbatim>\<open>max(a, b)\<close> of Python return \<open>a\<close> unless \<open>b\<close> compares strictly
  better, so a NaN in second place is dropped and a NaN in first place is kept.
\<close>

definition py_min :: "npfloat \<Rightarrow> npfloat \<Rightarrow> npfloat" where
  "py_min a b = (if np_less b a then b else a)"

definition py_max :: "npfloat \<Rightarrow> npfloat \<Rightarrow> npfloat" where
  "py_max a b = (if np_less a b then b else a)"

definition np_sqrt :: "int \<Rightarrow> npfloat" where
  "np_sqrt n = (if n < 0 then NaN else Fin (sqrt (real_of_int n)))"

definition timeframe_map :: "(string \<times> int) list" where
  "timeframe_map = [(''20m'', 1), (''1h'', 1), (''2h'', 2), (''4h'', 4), (''1d'', 24)]"

definition get_periods_for_timeframe :: "string \<Rightarrow> py_error + int" where
  "get_periods_for_timeframe timeframe =
     (if CHR ''h'' \<in> set timeframe
      then try_bind (py_int (filter (\<lambda>c. c \<noteq> CHR ''h'') timeframe)) (\<lambda>hours. Inr hours)
      else if CHR ''m'' \<in> set timeframe then Inr 1
      else if CHR ''d'' \<in> set timeframe
      then try_bind (py_int (filter (\<lambda>c. c \<noteq> CHR ''d'') timeframe)) (\<lambda>days. Inr (days * 24))
      else Inr (dict_get timeframe_map timeframe 1))"

definition get_max_expectation_for_timeframe :: "string \<Rightarrow> py_error + real" where
  "get_max_expectation_for_timeframe timeframe =
     try_bind (get_periods_for_timeframe timeframe) (\<lambda>periods.
       if periods \<le> 1 then Inr (5 / 100)
       else if periods \<le> 2 then Inr (8 / 100)
       else if periods \<le> 4 then Inr (12 / 100)
       else Inr (20 / 100))"

definition btc_calculate_expected_return :: "DataFrame \<Rightarrow> string \<Rightarrow> py_error + npfloat" where
  "btc_calculate_expected_return btc_data timeframe =
     (let returns = pct_change (Close btc_data)
      in try_bind (get_periods_for_timeframe timeframe) (\<lambda>periods.
           if int (length (Close btc_data)) < periods * 2 then Inr (Fin (2 / 100))
           else
             (let recent_vol = series_std (tail (periods * 4) returns);
                  recent_returns = tail periods returns;
                  momentum = series_mean recent_returns;
                  base_expectation = x_mul momentum (Fin (real_of_int periods));
                  volatility_expectation = x_mul recent_vol (np_sqrt periods);
                  e1 = py_min (x_abs base_expectation) volatility_expectation;
                  e2 = (if np_less (x_mul recent_vol (Fin (5 / 10))) (x_abs momentum)
                        then x_abs base_expectation else e1);
                  e3 = py_max e2 (Fin (1 / 100))
              in try_bind (get_max_expectation_for_timeframe timeframe) (\<lambda>max_expectation.
                   Inr (py_min e3 (Fin max_expectation))))))"

text \<open>
  \<^verbatim>\<open>BTCBenchmark\<close>.  A \<^verbatim>\<open>datetime\<close> is a count of microseconds, and
  \<^verbatim>\<open>(later - earlier).seconds\<close> is the seconds field of the normalised \<^verbatim>\<open>timedelta\<close>
  (days, seconds, microseconds), which lies in \<open>0 .. 86399\<close>.
\<close>

record BTCBenchmark =
  cache :: "string \<rightharpoonup> int \<times> npfloat"
  cache_duration :: int

definition btc_benchmark_init :: BTCBenchmark where
  "btc_benchmark_init = \<lparr> cache = Map.empty, cache_duration = 300 \<rparr>"

definition timedelta_seconds :: "int \<Rightarrow> int \<Rightarrow> int" where
  "timedelta_seconds later earlier = ((later - earlier) div 1000000) mod 86400"

text \<open>
  \<^verbatim>\<open>_fetch_btc_data\<close>: \<open>history\<close> is what \<^verbatim>\<open>yf.Ticker(...).history(...)\<close> does in this
  call, a raised error or a frame.
\<close>

definition fetch_btc_data :: "py_error + DataFrame \<Rightarrow> DataFrame option" where
  "fetch_btc_data history =
     (case history of
        Inl e \<Rightarrow> None
      | Inr hist \<Rightarrow> if Close hist = [] then None else Some hist)"

text \<open>The cache test at the head of \<^verbatim>\<open>get_expected_return\<close>.\<close>

definition cache_lookup :: "BTCBenchmark \<Rightarrow> int \<Rightarrow> string \<Rightarrow> npfloat option" where
  "cache_lookup self now cache_key =
     (case cache self cache_key of
        None \<Rightarrow> None
      | Some (cached_time, cached_value) \<Rightarrow>
          if timedelta_seconds now cached_time < cache_duration self then Some cached_value
          else None)"

text \<open>
  \<^verbatim>\<open>get_expected_return\<close>, with the two clock readings \<open>now\<close> (cache test) and \<open>now'\<close>
  (cache write) and the outcome of the history request as arguments.  \<^verbatim>\<open>not btc_data\<close>
  asks pandas for the truth value of the frame; \<open>frame_truth\<close> is that library answer.  The
  result is the returned value and the object after the call.
\<close>

definition get_expected_return ::
    "(DataFrame \<Rightarrow> py_error + bool) \<Rightarrow> BTCBenchmark \<Rightarrow> int \<Rightarrow> int \<Rightarrow> py_error + DataFrame
       \<Rightarrow> string \<Rightarrow> npfloat \<times> BTCBenchmark" where
  "get_expected_return frame_truth self now now' history timeframe =
     (let cache_key = ''btc_return_'' @ timeframe
      in case cache_lookup self now cache_key of
           Some cached_value \<Rightarrow> (cached_value, self)
         | None \<Rightarrow>
             (case (case fetch_btc_data history of
                      None \<Rightarrow> Inr (Fin (2 / 100), self)
                    | Some btc_data \<Rightarrow>
                        try_bind (frame_truth btc_data) (\<lambda>truth.
                          if \<not> truth then Inr (Fin (2 / 100), self)
                          else try_bind (btc_calculate_expected_return btc_data timeframe)
                                 (\<lambda>expected_return'.
                                    Inr (expected_return',
                                         self\<lparr> cache := (cache self)
                                                  (cache_key \<mapsto> (now', expected_return')) \<rparr>)))) of
                Inl e \<Rightarrow> (Fin (2 / 100), self)
              | Inr result \<Rightarrow> result))"

text \<open>pandas itself answers every truth test of a frame with ValueError.\<close>

definition dataframe_bool :: "DataFrame \<Rightarrow> py_error + bool" where
  "dataframe_bool df = Inl ValueError"

text \<open>
  Successive calls of \<^verbatim>\<open>get_expected_return\<close> on one object.  A call is given by its two
  clock readings, the outcome of its history request and its timeframe; the object that
  one call leaves is the object of the next.
\<close>

fun get_expected_return_calls ::
    "(DataFrame \<Rightarrow> py_error + bool) \<Rightarrow> BTCBenchmark
       \<Rightarrow> (int \<times> int \<times> (py_error + DataFrame) \<times> string) list \<Rightarrow> npfloat list \<times> BTCBenchmark" where
  "get_expected_return_calls frame_truth self [] = ([], self)"
| "get_expected_return_calls frame_truth self ((now, now', history, timeframe) # rest) =
     (case get_expected_return frame_truth self now now' history timeframe of
        (returned, self') \<Rightarrow>
          (case get_expected_return_calls frame_truth self' rest of
             (later, self'') \<Rightarrow> (returned # later, self'')))"

section \<open>Example inputs\<close>

text \<open>
  The scan of the specification's scenario: the snapshot, a pressure signal with target
  strike 155 and probability 0.62, and a fuel signal with squeeze score 75.  The fields the
  scenario leaves open are filled with neutral values.
\<close>

definition scenario_market_data :: MarketData where
  "scenario_market_data =
     \<lparr> MarketData.symbol = ''AAPL'', price = 150, volume = 5000000, vwap = 1498 / 10,
       high = 152, low = 1485 / 10, open = 150, MarketData.timestamp = 0 \<rparr>"

definition scenario_pressure :: PressureSignal where
  "scenario_pressure =
     \<lparr> target_strike = Some 155, PressureSignal.probability_reach = 62 / 100,
       dealer_flow = ''neutral'', nearest_walls = [], max_pain = 150,
       put_call_ratio = Finite 1, PressureSignal.score = 0 \<rparr>"

definition scenario_fuel :: FuelSignal where
  "scenario_fuel =
     \<lparr> low_float = False, high_short_interest = False, high_borrow_cost = False,
       volume_surge = False, relative_volume = 1, short_squeeze_score = 75,
       fuel_factors = [], FuelSignal.score = 0 \<rparr>"

text \<open>
  A price history given by its first close and its hourly returns.  The eight returns of
  \<open>example_returns\<close> have mean 0.002 over the last four and sample standard deviation 0.01.
\<close>

fun closes_from :: "real \<Rightarrow> real list \<Rightarrow> real list" where
  "closes_from c [] = [c]"
| "closes_from c (r # rs) = c # closes_from (c * (1 + r)) rs"

definition example_returns :: "real list" where
  "example_returns =
     [20 / 1000, - 16 / 1000, 7 / 1000, - 3 / 1000, 3 / 1000, 1 / 1000, 2 / 1000, 2 / 1000]"

definition example_btc_data :: DataFrame where
  "example_btc_data = \<lparr> Close = closes_from 100 example_returns \<rparr>"

text \<open>A benchmark object whose only cache entry was written at time 0.\<close>

definition stale_benchmark :: BTCBenchmark where
  "stale_benchmark =
     btc_benchmark_init\<lparr> cache := [''btc_return_4h'' \<mapsto> (0, Fin (5 / 100))] \<rparr>"

text \<open>Three candidates that pass every filter, the first two with the same ranking key,
  and one that fails the benchmark gate.\<close>

definition example_scores :: "CompositeScore list" where
  "example_scores =
     [\<lparr> CompositeScore.symbol = ''AAA'', total_score = 80, ignition_score = 0,
        pressure_score = 0, fuel_score = 0, btc_benchmark_passed = True,
        expected_return = 5 / 100, btc_expected_return = 2 / 100,
        CompositeScore.probability_reach = 7 / 10, target_price = None,
        risk_reward_ratio = 1 \<rparr>,
      \<lparr> CompositeScore.symbol = ''BBB'', total_score = 80, ignition_score = 0,
        pressure_score = 0, fuel_score = 0, btc_benchmark_passed = True,
        expected_return = 5 / 100, btc_expected_return = 2 / 100,
        CompositeScore.probability_reach = 7 / 10, target_price = None,
        risk_reward_ratio = 1 \<rparr>,
      \<lparr> CompositeScore.symbol = ''CCC'', total_score = 90, ignition_score = 0,
        pressure_score = 0, fuel_score = 0, btc_benchmark_passed = True,
        expected_return = 5 / 100, btc_expected_return = 2 / 100,
        CompositeScore.probability_reach = 8 / 10, target_price = None,
        risk_reward_ratio = 1 \<rparr>,
      \<lparr> CompositeScore.symbol = ''DDD'', total_score = 95, ignition_score = 0,
        pressure_score = 0, fuel_score = 0, btc_benchmark_passed = False,
        expected_return = 1 / 100, btc_expected_return = 2 / 100,
        CompositeScore.probability_reach = 9 / 10, target_price = None,
        risk_reward_ratio = 1 \<rparr>]"



text \<open>The rearrangement that leaves every entry in its place.\<close>

definition keep_order :: "npfloat list \<Rightarrow> nat list" where
  "keep_order keys = [0 ..< length keys]"

text \<open>
  Stand-ins for the library parameters: a random stream that always draws 0, a
  distribution function that is 1/2 everywhere, and a frame whose truth test answers true.
\<close>

definition zero_draws :: "string \<Rightarrow> nat \<Rightarrow> real" where
  "zero_draws s i = 0"

definition half_cdf :: "real \<Rightarrow> real" where
  "half_cdf x = 1 / 2"

definition frame_is_true :: "DataFrame \<Rightarrow> py_error + bool" where
  "frame_is_true df = Inr True"

text \<open>
  Options chains for the scenario symbol: one without strikes, one whose only strike is the
  current price 150, one whose only strike is 155; and fundamentals with an average volume
  of one share.
\<close>

definition no_strikes_options :: OptionsData where
  "no_strikes_options =
     \<lparr> OptionsData.symbol = ''AAPL'', strikes = [], calls_volume = [], puts_volume = [],
       calls_oi = [], puts_oi = [], iv = [], OptionsData.timestamp = 0 \<rparr>"

definition at_price_options :: OptionsData where
  "at_price_options =
     \<lparr> OptionsData.symbol = ''AAPL'', strikes = [150], calls_volume = [(150, 100)],
       puts_volume = [(150, 100)], calls_oi = [(150, 5000)], puts_oi = [(150, 0)],
       iv = [(150, 3 / 10)], OptionsData.timestamp = 0 \<rparr>"

definition above_price_options :: OptionsData where
  "above_price_options =
     \<lparr> OptionsData.symbol = ''AAPL'', strikes = [155], calls_volume = [(155, 100)],
       puts_volume = [(155, 100)], calls_oi = [(155, 6000)], puts_oi = [(155, 0)],
       iv = [(155, 3 / 10)], OptionsData.timestamp = 0 \<rparr>"

text \<open>The chain with the strike at the current price, and an open interest of \<open>2 ^ 1024\<close>
  calls there.\<close>

definition huge_oi_options :: OptionsData where
  "huge_oi_options = at_price_options\<lparr> calls_oi := [(150, 2 ^ 1024)] \<rparr>"

definition example_fundamentals :: FundamentalData where
  "example_fundamentals =
     \<lparr> FundamentalData.symbol = ''AAPL'', float_shares = 4000000, short_percent = 32,
       short_shares = 1280000, borrow_fee = 120, avg_volume = 1, market_cap = 600000000,
       insider_ownership = 45 \<rparr>"

section \<open>The order of the keys\<close>

text \<open>
  For the proofs about the descending sort, a key that is not NaN is given a place in a
  linear order in which a greater key comes first.
\<close>

fun desc_rank :: "npfloat \<Rightarrow> int \<times> real" where
  "desc_rank PInf = (0, 0)"
| "desc_rank (Fin x) = (1, - x)"
| "desc_rank NInf = (2, 0)"
| "desc_rank NaN = (3, 0)"

section \<open>Rounding to doubles\<close>

lemma round_half_even_eqI:
  assumes "\<bar>y - real_of_int n\<bar> < 1 / 2"
  shows "round_half_even y = n"
proof -
  have "\<lfloor>y\<rfloor> = n \<or> \<lfloor>y\<rfloor> = n - 1"
    using assms by linarith
  then show ?thesis
  proof
    assume f: "\<lfloor>y\<rfloor> = n"
    then have "y - real_of_int n < 1 / 2" using assms by linarith
    with f show ?thesis by (simp add: round_half_even_def Let_def)
  next
    assume f: "\<lfloor>y\<rfloor> = n - 1"
    then have "1 / 2 < y - real_of_int (n - 1)" using assms by (simp add: abs_if split: if_splits)
    with f show ?thesis by (simp add: round_half_even_def Let_def)
  qed
qed

lemma round_half_even_error: "\<bar>real_of_int (round_half_even y) - y\<bar> \<le> 1 / 2"
  unfolding round_half_even_def Let_def by (auto simp: abs_if; linarith)

lemma floor_log2_eqI:
  assumes "2 powi e \<le> x" and "x < 2 powi (e + 1)"
  shows "\<lfloor>log 2 x\<rfloor> = e"
proof -
  have "0 < (2::real) powi e" by simp
  with assms(1) have pos: "0 < x" by linarith
  have a: "(2::real) powr real_of_int e = 2 powi e"
    using powr_real_of_int'[of "2::real" e] by simp
  have "(2::real) powr real_of_int (e + 1) = 2 powi (e + 1)"
    using powr_real_of_int'[of "2::real" "e + 1"] by simp
  then have b: "(2::real) powr (real_of_int e + 1) = 2 powi (e + 1)"
    by (simp add: algebra_simps)
  have "2 powr real_of_int e \<le> x \<and> x < 2 powr (real_of_int e + 1)"
    using assms a b by simp
  then show ?thesis
    using floor_log_eq_powr_iff[OF pos, of 2 e] by simp
qed

lemma floor_log2_bounds:
  assumes "0 < x"
  shows "2 powi \<lfloor>log 2 x\<rfloor> \<le> x \<and> x < 2 powi (\<lfloor>log 2 x\<rfloor> + 1)"
proof -
  let ?e = "\<lfloor>log 2 x\<rfloor>"
  have a: "(2::real) powr real_of_int ?e = 2 powi ?e"
    using powr_real_of_int'[of "2::real" ?e] by simp
  have "(2::real) powr real_of_int (?e + 1) = 2 powi (?e + 1)"
    using powr_real_of_int'[of "2::real" "?e + 1"] by simp
  then have b: "(2::real) powr (real_of_int ?e + 1) = 2 powi (?e + 1)"
    by (simp add: algebra_simps)
  have "2 powr real_of_int ?e \<le> x \<and> x < 2 powr (real_of_int ?e + 1)"
    using floor_log_eq_powr_iff[OF assms, of 2 ?e] by simp
  then show ?thesis unfolding a b .
qed

lemma quantum_eqI:
  assumes "2 powi e \<le> \<bar>x\<bar>" and "\<bar>x\<bar> < 2 powi (e + 1)"
  shows "quantum x = 2 powi (max e (- 1022) - 52)"
  using floor_log2_eqI[OF assms] by (simp add: quantum_def)

text \<open>How a rounding is computed: name the exponent and the multiple.\<close>

lemma fl_eqI2:
  assumes "2 powi e \<le> \<bar>x\<bar>" and "\<bar>x\<bar> < 2 powi (e + 1)"
    and "q = 2 powi (max e (- 1022) - 52)"
    and "round_half_even (x / q) = n"
    and "\<bar>real_of_int n * q\<bar> < 2 ^ 1024"
  shows "fl x = Fin (real_of_int n * q)"
proof -
  have "0 < (2::real) powi e" by simp
  with assms(1) have "x \<noteq> 0" by linarith
  moreover have "quantum x = q" using quantum_eqI[OF assms(1,2)] assms(3) by simp
  ultimately show ?thesis
    using assms(4,5) by (auto simp: fl_def Let_def abs_if split: if_splits)
qed

lemma fl_eqI:
  assumes "2 powi e \<le> \<bar>x\<bar>" and "\<bar>x\<bar> < 2 powi (e + 1)"
    and "q = 2 powi (max e (- 1022) - 52)"
    and "\<bar>x / q - real_of_int n\<bar> < 1 / 2"
    and "\<bar>real_of_int n * q\<bar> < 2 ^ 1024"
  shows "fl x = Fin (real_of_int n * q)"
  using assms(1,2,3) round_half_even_eqI[OF assms(4)] assms(5) by (rule fl_eqI2)

text \<open>In the normal range a rounding changes its argument by at most one part in \<open>2 ^ 53\<close>.\<close>

lemma fl_normal:
  assumes lo: "1 / 2 ^ 1022 \<le> \<bar>x\<bar>" and hi: "\<bar>x\<bar> \<le> 2 ^ 1023"
  shows "\<exists>r. fl x = Fin r \<and> \<bar>r - x\<bar> \<le> \<bar>x\<bar> / 2 ^ 53"
proof -
  let ?e = "\<lfloor>log 2 \<bar>x\<bar>\<rfloor>"
  have "0 < 1 / (2::real) ^ 1022" by simp
  with lo have pos: "0 < \<bar>x\<bar>" by linarith
  note b = floor_log2_bounds[OF pos]
  have "(2::real) powi (- 1022) < 2 powi (?e + 1)"
    using lo b by (simp add: power_int_minus field_simps)
  then have e: "- 1022 \<le> ?e"
    using power_int_increasing[of "?e + 1" "- 1022" "2::real"] by (cases "- 1022 \<le> ?e") auto
  let ?q = "(2::real) powi (?e - 52)"
  have m: "max ?e (- 1022) = ?e" using e by (rule max.absorb1)
  have q: "quantum x = ?q" by (simp only: quantum_def m)
  have qpos: "0 < ?q" by simp
  have q53: "?q / 2 = 2 powi ?e / 2 ^ 53"
    by (simp add: power_int_diff)
  let ?n = "round_half_even (x / ?q)"
  let ?r = "real_of_int ?n * ?q"
  have "\<bar>real_of_int ?n - x / ?q\<bar> \<le> 1 / 2" by (rule round_half_even_error)
  then have "\<bar>real_of_int ?n - x / ?q\<bar> * ?q \<le> 1 / 2 * ?q"
    using qpos by (intro mult_right_mono) simp_all
  moreover have "\<bar>real_of_int ?n - x / ?q\<bar> * ?q = \<bar>?r - x\<bar>"
  proof -
    have "(real_of_int ?n - x / ?q) * ?q = ?r - x"
      using qpos by (simp add: left_diff_distrib)
    then have "\<bar>?r - x\<bar> = \<bar>real_of_int ?n - x / ?q\<bar> * \<bar>?q\<bar>"
      by (simp only: abs_mult[symmetric])
    then show ?thesis using qpos by (simp only: abs_of_pos)
  qed
  ultimately have err: "\<bar>?r - x\<bar> \<le> 2 powi ?e / 2 ^ 53"
    using q53 by simp
  also have "\<dots> \<le> \<bar>x\<bar> / 2 ^ 53"
    using b by (simp add: divide_right_mono)
  finally have rel: "\<bar>?r - x\<bar> \<le> \<bar>x\<bar> / 2 ^ 53" .
  have "\<bar>?r\<bar> \<le> \<bar>x\<bar> + \<bar>x\<bar> / 2 ^ 53" using rel by linarith
  also have "\<dots> \<le> 2 ^ 1023 + 2 ^ 1023 / 2 ^ 53" using hi by (intro add_mono divide_right_mono) simp_all
  also have "\<dots> < (2::real) ^ 1024" by simp
  finally have range: "\<bar>?r\<bar> < 2 ^ 1024" .
  have "x \<noteq> 0" using pos by simp
  then have "fl x = Fin ?r"
    using range q by (auto simp: fl_def Let_def abs_if split: if_splits)
  with rel show ?thesis by blast
qed

lemma fl_7_10: "fl (7 / 10) = Fin (3152519739159347 / 2 ^ 52)"
proof -
  have "fl (7 / 10) = Fin (real_of_int 6305039478318694 * 2 powi (max (- 1) (- 1022) - 52))"
    by (rule fl_eqI[where e = "- 1"]) (simp_all add: power_int_minus field_simps)
  then show ?thesis by (simp add: power_int_minus)
qed

lemma fl_95_100: "fl (95 / 100) = Fin (4278419646001971 / 2 ^ 52)"
proof -
  have "fl (95 / 100) = Fin (real_of_int 8556839292003942 * 2 powi (max (- 1) (- 1022) - 52))"
    by (rule fl_eqI[where e = "- 1"]) (simp_all add: power_int_minus field_simps)
  then show ?thesis by (simp add: power_int_minus)
qed

text \<open>A cruder bound that also covers the subnormal range.\<close>

lemma quantum_le:
  assumes "x \<noteq> 0"
  shows "quantum x \<le> max \<bar>x\<bar> 1"
proof -
  let ?e = "\<lfloor>log 2 \<bar>x\<bar>\<rfloor>"
  from assms have pos: "0 < \<bar>x\<bar>" by simp
  note b = floor_log2_bounds[OF pos]
  show ?thesis
  proof (cases "- 1022 \<le> ?e")
    case True
    then have m: "max ?e (- 1022) = ?e" by (rule max.absorb1)
    have "(2::real) powi (?e - 52) \<le> 2 powi ?e"
      by (intro power_int_increasing) simp_all
    with b show ?thesis by (simp only: quantum_def m) linarith
  next
    case False
    then have m: "max ?e (- 1022) = - 1022" by (intro max.absorb2) simp
    have "(2::real) powi (- 1022 - 52) \<le> 2 powi 0"
      by (intro power_int_increasing) simp_all
    then show ?thesis by (simp only: quantum_def m) simp
  qed
qed

lemma fl_finite:
  assumes x: "\<bar>x\<bar> \<le> b" and b1: "1 \<le> b" and b2: "b \<le> 2 ^ 1022"
  shows "\<exists>r. fl x = Fin r \<and> \<bar>r\<bar> \<le> 2 * b"
proof (cases "x = 0")
  case True
  with b1 show ?thesis by (simp add: fl_def)
next
  case False
  let ?q = "quantum x"
  let ?n = "round_half_even (x / ?q)"
  let ?r = "real_of_int ?n * ?q"
  have qpos: "0 < ?q" by (simp add: quantum_def)
  have "\<bar>real_of_int ?n - x / ?q\<bar> \<le> 1 / 2" by (rule round_half_even_error)
  then have "\<bar>real_of_int ?n - x / ?q\<bar> * ?q \<le> 1 / 2 * ?q"
    using qpos by (intro mult_right_mono) simp_all
  moreover have "\<bar>real_of_int ?n - x / ?q\<bar> * ?q = \<bar>?r - x\<bar>"
  proof -
    have "(real_of_int ?n - x / ?q) * ?q = ?r - x"
      using qpos by (simp add: left_diff_distrib)
    then have "\<bar>?r - x\<bar> = \<bar>real_of_int ?n - x / ?q\<bar> * \<bar>?q\<bar>"
      by (simp only: abs_mult[symmetric])
    then show ?thesis using qpos by (simp only: abs_of_pos)
  qed
  ultimately have "\<bar>?r - x\<bar> \<le> ?q / 2" by simp
  moreover have "?q \<le> b" using quantum_le[OF False] x b1 by simp
  ultimately have r: "\<bar>?r\<bar> \<le> 2 * b" using x by linarith
  have "2 * b \<le> 2 * 2 ^ 1022" using b2 by simp
  also have "\<dots> < (2::real) ^ 1024" by simp
  finally have "\<bar>?r\<bar> < 2 ^ 1024" using r by linarith
  then have "fl x = Fin ?r"
    using False by (auto simp: fl_def Let_def abs_if split: if_splits)
  with r show ?thesis by blast
qed

section \<open>Sorting and slicing\<close>

lemma length_filter_mono:
  "(\<And>x. x \<in> set xs \<Longrightarrow> P x \<Longrightarrow> Q x) \<Longrightarrow> length (filter P xs) \<le> length (filter Q xs)"
  by (induction xs) auto

lemma length_slice_to_mono:
  "length xs \<le> length ys \<Longrightarrow> length (slice_to n xs) \<le> length (slice_to n ys)"
  by (auto simp: slice_to_def)

lemma length_sorted_desc [simp]: "length (sorted_desc k xs) = length xs"
  by (simp add: sorted_desc_def)

lemma set_sorted_desc [simp]: "set (sorted_desc k xs) = set xs"
  by (simp add: sorted_desc_def)

text \<open>Without NaN, \<open>np_less\<close> is the strict part of a linear order.\<close>

lemma np_less_desc_rank:
  "a \<noteq> NaN \<Longrightarrow> b \<noteq> NaN \<Longrightarrow> np_less a b \<longleftrightarrow> desc_rank b < desc_rank a"
  by (cases a; cases b) simp_all


lemma insert_reverse_insort_key:
  assumes "k x \<noteq> NaN" and "NaN \<notin> k ` set ys"
  shows "insert_reverse k x ys = insort_key (\<lambda>y. desc_rank (k y)) x ys"
  using assms(2)
proof (induction ys)
  case Nil
  then show ?case by simp
next
  case (Cons y ys)
  then have "k y \<noteq> NaN" by force
  then have "np_less (k x) (k y) \<longleftrightarrow> \<not> desc_rank (k x) \<le> desc_rank (k y)"
    using assms(1) by (simp add: np_less_desc_rank not_le)
  with Cons show ?case by simp
qed

lemma sorted_reverse_sort_key:
  assumes "NaN \<notin> k ` set xs"
  shows "sorted_reverse nan_order k xs = sort_key (\<lambda>y. desc_rank (k y)) xs"
proof -
  have "foldr (insert_reverse k) xs [] = sort_key (\<lambda>y. desc_rank (k y)) xs"
    using assms
  proof (induction xs)
    case Nil
    then show ?case by simp
  next
    case (Cons x xs)
    then have x: "k x \<noteq> NaN" and rest: "NaN \<notin> k ` set xs" by force+
    have "NaN \<notin> k ` set (sort_key (\<lambda>y. desc_rank (k y)) xs)" using rest by simp
    from insert_reverse_insort_key[OF x this] Cons.IH[OF rest] show ?case
      by (simp add: sort_key_def)
  qed
  with assms show ?thesis by (simp add: sorted_reverse_def)
qed

text \<open>In every case the sorted list is a rearrangement of the input.\<close>

lemma mset_sorted_reverse: "mset (sorted_reverse nan_order k xs) = mset xs"
proof (cases "NaN \<in> k ` set xs")
  case False
  then show ?thesis by (simp add: sorted_reverse_sort_key)
next
  case True
  have "mset (map (\<lambda>i. xs ! i) order) = mset xs"
    if "mset order = mset [0 ..< length xs]" for order
  proof -
    have "mset (map (\<lambda>i. xs ! i) order) = image_mset (\<lambda>i. xs ! i) (mset order)" by simp
    also have "\<dots> = image_mset (\<lambda>i. xs ! i) (mset [0 ..< length xs])" using that by simp
    also have "\<dots> = mset (map (\<lambda>i. xs ! i) [0 ..< length xs])" by simp
    also have "map (\<lambda>i. xs ! i) [0 ..< length xs] = xs" by (rule map_nth)
    finally show ?thesis .
  qed
  with True show ?thesis by (simp add: sorted_reverse_def Let_def)
qed

lemma length_sorted_reverse: "length (sorted_reverse nan_order k xs) = length xs"
  using mset_sorted_reverse[of nan_order k xs] by (rule mset_eq_length)




section \<open>Filtering and ranking\<close>

lemma fst_apply_filters:
  "fst (apply_filters cfg scores) =
     filter (\<lambda>s. btc_benchmark_passed s
               \<and> MIN_SCORE_THRESHOLD cfg \<le> total_score s
               \<and> MIN_PROBABILITY_THRESHOLD cfg \<le> CompositeScore.probability_reach s) scores"
  by (induction scores) (auto split: prod.splits)

lemma filter_and_rank_logged_result:
  "fst (filter_and_rank_logged nan_order cfg logged scores) =
     slice_to (MAX_SYMBOLS_PER_SCAN cfg)
       (sorted_reverse nan_order ranking_key
          (filter (\<lambda>s. btc_benchmark_passed s
                     \<and> MIN_SCORE_THRESHOLD cfg \<le> total_score s
                     \<and> MIN_PROBABILITY_THRESHOLD cfg \<le> CompositeScore.probability_reach s) scores))"
  using fst_apply_filters[of cfg scores]
  by (cases "apply_filters cfg scores") (simp add: filter_and_rank_logged_def Let_def)

lemma filter_and_rank_result:
  "filter_and_rank nan_order cfg scores =
     slice_to (MAX_SYMBOLS_PER_SCAN cfg)
       (sorted_reverse nan_order ranking_key
          (filter (\<lambda>s. btc_benchmark_passed s
                     \<and> MIN_SCORE_THRESHOLD cfg \<le> total_score s
                     \<and> MIN_PROBABILITY_THRESHOLD cfg \<le> CompositeScore.probability_reach s) scores))"
  by (simp add: filter_and_rank_def filter_and_rank_logged_result)

text \<open>A key is NaN only when its products overflow: not with fields of magnitude up to
  \<open>2 ^ 1000\<close>.\<close>

lemma ranking_key_finite:
  assumes t: "\<bar>total_score s\<bar> \<le> 2 ^ 1000"
    and p: "\<bar>CompositeScore.probability_reach s\<bar> \<le> 2 ^ 1000"
    and r: "\<bar>risk_reward_ratio s\<bar> \<le> 2 ^ 1000"
  shows "\<exists>x. ranking_key s = Fin x"
proof -
  have "\<bar>total_score s * (3152519739159347 / 2 ^ 52)\<bar> \<le> \<bar>total_score s\<bar>"
    by (simp add: abs_mult mult_left_le)
  with t have "\<bar>total_score s * (3152519739159347 / 2 ^ 52)\<bar> \<le> 2 ^ 1000" by linarith
  from fl_finite[OF this] obtain a where
    a: "fl (total_score s * (3152519739159347 / 2 ^ 52)) = Fin a" and a': "\<bar>a\<bar> \<le> 2 * 2 ^ 1000"
    by auto
  have "\<bar>CompositeScore.probability_reach s * 30\<bar> \<le> 2 ^ 1005"
    using p by (simp add: abs_mult)
  from fl_finite[OF this] obtain b where
    b: "fl (CompositeScore.probability_reach s * 30) = Fin b" and b': "\<bar>b\<bar> \<le> 2 * 2 ^ 1005"
    by auto
  have "\<bar>a + b\<bar> \<le> 2 ^ 1007" using a' b' by simp
  from fl_finite[OF this] obtain c where
    c: "fl (a + b) = Fin c" and c': "\<bar>c\<bar> \<le> 2 * 2 ^ 1007"
    by auto
  have "\<bar>risk_reward_ratio s * 5\<bar> \<le> 2 ^ 1003"
    using r by (simp add: abs_mult)
  from fl_finite[OF this] obtain d where
    d: "fl (risk_reward_ratio s * 5) = Fin d" and d': "\<bar>d\<bar> \<le> 2 * 2 ^ 1003"
    by auto
  have "\<bar>c + d\<bar> \<le> 2 ^ 1009" using c' d' by simp
  from fl_finite[OF this] obtain e where "fl (c + d) = Fin e" by auto
  then have "ranking_key s = Fin e"
    by (simp only: ranking_key_def fl_7_10 np_mul.simps(1) np_add.simps(1) a b c d)
  then show ?thesis ..
qed










lemma fl_zero: "fl 0 = Fin 0"
  by (simp add: fl_def)






text \<open>
  Claim C6.  For thresholds \<open>t1 \<le> t2\<close> and the same input list, \<^verbatim>\<open>filter_and_rank\<close>
  under \<^verbatim>\<open>MIN_SCORE_THRESHOLD = t2\<close> returns no more candidates than under
  \<^verbatim>\<open>MIN_SCORE_THRESHOLD = t1\<close>.
\<close>

theorem raising_score_threshold_never_adds:
  assumes "t1 \<le> t2"
  shows "length (filter_and_rank nan_order (cfg\<lparr>MIN_SCORE_THRESHOLD := t2\<rparr>) scores)
         \<le> length (filter_and_rank nan_order (cfg\<lparr>MIN_SCORE_THRESHOLD := t1\<rparr>) scores)"
proof -
  let ?keep = "\<lambda>t s. btc_benchmark_passed s \<and> t \<le> total_score s
                 \<and> MIN_PROBABILITY_THRESHOLD cfg \<le> CompositeScore.probability_reach s"
  have eq: "filter_and_rank nan_order (cfg\<lparr>MIN_SCORE_THRESHOLD := t\<rparr>) scores =
      slice_to (MAX_SYMBOLS_PER_SCAN cfg)
        (sorted_reverse nan_order ranking_key (filter (?keep t) scores))" for t
    by (simp add: filter_and_rank_result)
  have "length (filter (?keep t2) scores) \<le> length (filter (?keep t1) scores)"
    using assms by (intro length_filter_mono) auto
  then show ?thesis
    unfolding eq by (intro length_slice_to_mono) (simp only: length_sorted_reverse)
qed

theorem raising_score_threshold_never_adds_witness:
  "(70::real) \<le> 85
   \<and> length (filter_and_rank keep_order (config\<lparr>MIN_SCORE_THRESHOLD := 85\<rparr>) example_scores)
       \<le> length (filter_and_rank keep_order (config\<lparr>MIN_SCORE_THRESHOLD := 70\<rparr>) example_scores)"
proof -
  have h: "(70::real) \<le> 85" by simp
  show ?thesis
    using h raising_score_threshold_never_adds[OF h, of keep_order config example_scores]
    by simp
qed

section \<open>Expected return and risk/reward\<close>

text \<open>The rounded steps of \<^verbatim>\<open>_calculate_risk_reward\<close> for a target above a non-zero price.\<close>

lemma calculate_risk_reward_steps:
  assumes "target \<noteq> 0" and "current_price < target" and "current_price \<noteq> 0"
    and "fl (current_price * (4278419646001971 / 2 ^ 52)) = Fin stop_loss"
    and "fl (current_price + - stop_loss) = Fin difference"
    and "fl (difference / current_price) = Fin loss"
  shows "calculate_risk_reward current_price (Some target) expected =
           (if loss \<le> 0 then Inr (Fin 10) else Inr (fl (expected / loss)))"
proof -
  have stop: "np_mul (Fin current_price) (fl (95 / 100)) = Fin stop_loss"
    by (simp only: fl_95_100 np_mul.simps(1) assms(4))
  have diff: "np_sub (Fin current_price) (Fin stop_loss) = Fin difference"
    by (simp only: np_sub_def np_neg.simps(1) np_add.simps(1) assms(5))
  have quot: "py_float_div (Fin difference) (Fin current_price) = Inr (Fin loss)"
    using assms(3,6) by (simp add: py_float_div_def)
  show ?thesis
    unfolding calculate_risk_reward_def Let_def stop diff quot
    using assms(1,2) by (auto simp: truthy_def try_bind_def np_le_def)
qed

text \<open>At price 1.0, and at the smallest positive double, rounding by rounding.\<close>

lemma unit_stop_loss: "fl (1 * (4278419646001971 / 2 ^ 52)) = Fin (4278419646001971 / 2 ^ 52)"
proof -
  have "fl (1 * (4278419646001971 / 2 ^ 52))
        = Fin (real_of_int 8556839292003942 * 2 powi (max (- 1) (- 1022) - 52))"
    by (rule fl_eqI2[where e = "- 1"])
      (simp_all add: power_int_minus round_half_even_def Let_def)
  then show ?thesis by (simp add: power_int_minus)
qed

lemma unit_difference: "fl (1 + - (4278419646001971 / 2 ^ 52)) = Fin (225179981368525 / 2 ^ 52)"
proof -
  have "fl (1 + - (4278419646001971 / 2 ^ 52))
        = Fin (real_of_int 7205759403792800 * 2 powi (max (- 5) (- 1022) - 52))"
    by (rule fl_eqI2[where e = "- 5"])
      (simp_all add: power_int_minus round_half_even_def Let_def)
  then show ?thesis by (simp add: power_int_minus)
qed

lemma unit_loss: "fl (225179981368525 / 2 ^ 52 / 1) = Fin (225179981368525 / 2 ^ 52)"
proof -
  have "fl (225179981368525 / 2 ^ 52 / 1)
        = Fin (real_of_int 7205759403792800 * 2 powi (max (- 5) (- 1022) - 52))"
    by (rule fl_eqI2[where e = "- 5"])
      (simp_all add: power_int_minus round_half_even_def Let_def)
  then show ?thesis by (simp add: power_int_minus)
qed

lemma unit_ratio: "fl (1 / 4 / (225179981368525 / 2 ^ 52)) = Fin (5629499534213115 / 2 ^ 50)"
proof -
  have "fl (1 / 4 / (225179981368525 / 2 ^ 52))
        = Fin (real_of_int 5629499534213115 * 2 powi (max 2 (- 1022) - 52))"
    by (rule fl_eqI2[where e = 2])
      (simp_all add: power_int_minus round_half_even_def Let_def)
  then show ?thesis by (simp add: power_int_minus)
qed

lemma tiny_stop_loss: "fl (1 / 2 ^ 1074 * (4278419646001971 / 2 ^ 52)) = Fin (1 / 2 ^ 1074)"
proof -
  have "fl (1 / 2 ^ 1074 * (4278419646001971 / 2 ^ 52))
        = Fin (real_of_int 1 * 2 powi (max (- 1075) (- 1022) - 52))"
    by (rule fl_eqI2[where e = "- 1075"])
      (simp_all add: power_int_minus round_half_even_def Let_def)
  then show ?thesis by (simp add: power_int_minus)
qed

lemma unit_risk_reward:
  "calculate_risk_reward 1 (Some 2) (1 / 4) = Inr (Fin (5629499534213115 / 2 ^ 50))"
proof -
  have "calculate_risk_reward 1 (Some 2) (1 / 4) =
          (if 225179981368525 / 2 ^ 52 \<le> (0::real) then Inr (Fin 10)
           else Inr (fl (1 / 4 / (225179981368525 / 2 ^ 52))))"
    by (rule calculate_risk_reward_steps[OF _ _ _ unit_stop_loss unit_difference unit_loss])
      simp_all
  also have "\<dots> = Inr (fl (1 / 4 / (225179981368525 / 2 ^ 52)))"
    by simp
  also have "\<dots> = Inr (Fin (5629499534213115 / 2 ^ 50))"
    by (simp only: unit_ratio)
  finally show ?thesis .
qed

lemma tiny_risk_reward:
  "calculate_risk_reward (1 / 2 ^ 1074) (Some 1) (1 / 4) = Inr (Fin 10)"
proof -
  have d: "fl (1 / 2 ^ 1074 + - (1 / 2 ^ 1074)) = Fin 0"
    by (simp add: fl_zero)
  have l: "fl (0 / (1 / 2 ^ 1074)) = Fin 0"
    by (simp add: fl_zero)
  have "calculate_risk_reward (1 / 2 ^ 1074) (Some 1) (1 / 4) =
          (if (0::real) \<le> 0 then Inr (Fin 10) else Inr (fl (1 / 4 / 0)))"
    by (rule calculate_risk_reward_steps[OF _ _ _ tiny_stop_loss d l]) simp_all
  also have "\<dots> = Inr (Fin 10)"
    by simp
  finally show ?thesis .
qed

text \<open>A rounding of a positive value in the normal range stays within the rounded bounds
  of the value.\<close>

lemma fl_between:
  assumes a: "1 / 2 ^ 1022 \<le> a" and ax: "a \<le> x" and xb: "x \<le> b" and b: "b \<le> 2 ^ 1023"
  shows "\<exists>r. fl x = Fin r \<and> a * (1 - 1 / 2 ^ 53) \<le> r \<and> r \<le> b * (1 + 1 / 2 ^ 53)"
proof -
  have "0 < 1 / (2::real) ^ 1022" by simp
  with a ax have xpos: "0 < x" by linarith
  have "1 / 2 ^ 1022 \<le> \<bar>x\<bar>" "\<bar>x\<bar> \<le> 2 ^ 1023"
    using a ax xb b xpos by simp_all
  from fl_normal[OF this] obtain r where
    r: "fl x = Fin r" and "\<bar>r - x\<bar> \<le> \<bar>x\<bar> / 2 ^ 53"
    by blast
  then have "\<bar>r - x\<bar> \<le> x / 2 ^ 53" using xpos by simp
  then have "x - x / 2 ^ 53 \<le> r" and "r \<le> x + x / 2 ^ 53" by linarith+
  then have lower: "x * (1 - 1 / 2 ^ 53) \<le> r" and upper: "r \<le> x * (1 + 1 / 2 ^ 53)"
    by (simp_all add: right_diff_distrib distrib_left)
  have "a * (1 - 1 / 2 ^ 53) \<le> x * (1 - 1 / 2 ^ 53)"
    using ax by (intro mult_right_mono) simp_all
  from this lower have "a * (1 - 1 / 2 ^ 53) \<le> r" by (rule order_trans)
  moreover have "x * (1 + 1 / 2 ^ 53) \<le> b * (1 + 1 / 2 ^ 53)"
    using xb by (intro mult_right_mono) simp_all
  with upper have "r \<le> b * (1 + 1 / 2 ^ 53)" by (rule order_trans)
  ultimately have "a * (1 - 1 / 2 ^ 53) \<le> r" and "r \<le> b * (1 + 1 / 2 ^ 53)" .
  with r show ?thesis by blast
qed

lemma scale_up:
  fixes a b :: real
  shows "a * (1 / 32) \<le> b \<Longrightarrow> a \<le> 32 * b"
  by simp

lemma scale_down:
  fixes a b :: real
  shows "b \<le> a * (1 / 16) \<Longrightarrow> 16 * b \<le> a"
  by simp

lemma rounded_ratio_bound:
  fixes r y g :: real
  assumes "\<bar>r - y\<bar> \<le> \<bar>y\<bar> / 2 ^ 53" and "\<bar>y - 20 * g\<bar> \<le> \<bar>y\<bar> * (1 / 2 ^ 47)"
    and "\<bar>y\<bar> \<le> 32 * \<bar>g\<bar>"
  shows "\<bar>r - 20 * g\<bar> \<le> 20 * \<bar>g\<bar> / 2 ^ 46"
  using assms by (simp add: abs_if split: if_splits)

text \<open>
  Claim C10, as amended.  For a current price between \<open>2 ^ - 1000\<close> and \<open>2 ^ 1000\<close> and
  a target above it, the potential loss that \<^verbatim>\<open>_calculate_risk_reward\<close> computes is a
  double within one part in \<open>2 ^ 47\<close> of 0.05, not 0.05 itself; it is positive, so the 10.0
  branch is not taken, and the result is the double nearest to the expected return divided
  by that loss.  For an expected return of magnitude between \<open>2 ^ - 1000\<close> and
  \<open>2 ^ 1000\<close> the result is within one part in \<open>2 ^ 46\<close> of the expected return divided
  by 0.05.
\<close>

theorem calculate_risk_reward_above_price:
  assumes lo: "1 / 2 ^ 1000 \<le> current_price" and hi: "current_price \<le> 2 ^ 1000"
    and above: "current_price < target"
  shows "\<exists>loss.
           \<bar>loss - 5 / 100\<bar> \<le> 5 / 100 / 2 ^ 47
         \<and> calculate_risk_reward current_price (Some target) expected = Inr (fl (expected / loss))
         \<and> (1 / 2 ^ 1000 \<le> \<bar>expected\<bar> \<and> \<bar>expected\<bar> \<le> 2 ^ 1000 \<longrightarrow>
              (\<exists>ratio. calculate_risk_reward current_price (Some target) expected = Inr (Fin ratio)
                 \<and> \<bar>ratio - expected / (5 / 100)\<bar> \<le> \<bar>expected / (5 / 100)\<bar> / 2 ^ 46))"
proof -
  let ?p = current_price
  have "0 < 1 / (2::real) ^ 1000" by simp
  with lo have ppos: "0 < ?p" by linarith
  let ?x1 = "?p * (4278419646001971 / 2 ^ 52)"
  have "1 / 2 ^ 1022 \<le> ?x1" using lo by simp
  moreover have "?x1 \<le> 2 ^ 1023" using hi ppos by simp
  ultimately obtain s where s: "fl ?x1 = Fin s"
    and slo: "?x1 * (1 - 1 / 2 ^ 53) \<le> s" and shi: "s \<le> ?x1 * (1 + 1 / 2 ^ 53)"
    using fl_between[of ?x1 ?x1 ?x1] by auto
  let ?x2 = "?p + - s"
  have x2lo: "?p * (1 / 20 - 3 / 2 ^ 54) \<le> ?x2"
    using shi ppos by simp
  have x2hi: "?x2 \<le> ?p * (1 / 20 + 3 / 2 ^ 54)"
    using slo ppos by simp
  have "1 / 2 ^ 1022 \<le> ?p * (1 / 20 - 3 / 2 ^ 54)" using lo by simp
  moreover have "?p * (1 / 20 + 3 / 2 ^ 54) \<le> 2 ^ 1023" using hi ppos by simp
  ultimately obtain d where d: "fl ?x2 = Fin d"
    and "?p * (1 / 20 - 3 / 2 ^ 54) * (1 - 1 / 2 ^ 53) \<le> d"
    and "d \<le> ?p * (1 / 20 + 3 / 2 ^ 54) * (1 + 1 / 2 ^ 53)"
    using fl_between[OF _ x2lo x2hi] by auto
  then have dlo: "?p * (1 / 20 - 1 / 2 ^ 52) \<le> d" and dhi: "d \<le> ?p * (1 / 20 + 1 / 2 ^ 52)"
    using ppos by simp_all
  let ?x3 = "d / ?p"
  have x3lo: "1 / 20 - 1 / 2 ^ 52 \<le> ?x3"
    using dlo ppos by (simp add: pos_le_divide_eq mult.commute)
  have x3hi: "?x3 \<le> 1 / 20 + 1 / 2 ^ 52"
    using dhi ppos by (simp add: pos_divide_le_eq mult.commute)
  have "1 / 2 ^ 1022 \<le> (1 / 20 - 1 / 2 ^ 52 :: real)" "(1 / 20 + 1 / 2 ^ 52 :: real) \<le> 2 ^ 1023"
    by simp_all
  from fl_between[OF this(1) x3lo x3hi this(2)] obtain l where l: "fl ?x3 = Fin l"
    and "(1 / 20 - 1 / 2 ^ 52) * (1 - 1 / 2 ^ 53) \<le> l"
    and "l \<le> (1 / 20 + 1 / 2 ^ 52) * (1 + 1 / 2 ^ 53)"
    by auto
  then have llo: "1 / 20 - 5 / 2 ^ 54 \<le> l" and lhi: "l \<le> 1 / 20 + 5 / 2 ^ 54"
    by simp_all
  have lpos: "0 < l" and l32: "1 / 32 \<le> l" and l16: "l \<le> 1 / 16"
    using llo lhi by simp_all
  have loss: "\<bar>l - 5 / 100\<bar> \<le> 5 / 100 / 2 ^ 47"
    using llo lhi by (simp add: abs_if)
  have unit: "\<bar>1 - 20 * l\<bar> \<le> 1 / 2 ^ 47"
    using llo lhi by (simp add: abs_if)
  have target: "target \<noteq> 0" "?p \<noteq> 0" using ppos above by simp_all
  have result: "calculate_risk_reward ?p (Some target) expected = Inr (fl (expected / l))"
    using calculate_risk_reward_steps[OF target(1) above target(2) s d l, of expected] lpos
    by simp
  have "\<exists>ratio. calculate_risk_reward ?p (Some target) expected = Inr (Fin ratio)
                 \<and> \<bar>ratio - expected / (5 / 100)\<bar> \<le> \<bar>expected / (5 / 100)\<bar> / 2 ^ 46"
    if g: "1 / 2 ^ 1000 \<le> \<bar>expected\<bar>" "\<bar>expected\<bar> \<le> 2 ^ 1000"
  proof -
    let ?y = "expected / l"
    have yl: "?y * l = expected" using lpos by simp
    then have "\<bar>?y\<bar> * \<bar>l\<bar> = \<bar>expected\<bar>" by (simp only: abs_mult[symmetric])
    then have ayl: "\<bar>?y\<bar> * l = \<bar>expected\<bar>" using lpos by (simp only: abs_of_pos)
    have "\<bar>?y\<bar> * (1 / 32) \<le> \<bar>?y\<bar> * l"
      using l32 by (intro mult_left_mono) simp_all
    then have "\<bar>?y\<bar> * (1 / 32) \<le> \<bar>expected\<bar>" by (simp only: ayl)
    then have yhi: "\<bar>?y\<bar> \<le> 32 * \<bar>expected\<bar>" by (rule scale_up)
    have "\<bar>?y\<bar> * l \<le> \<bar>?y\<bar> * (1 / 16)"
      using l16 by (intro mult_left_mono) simp_all
    then have "\<bar>expected\<bar> \<le> \<bar>?y\<bar> * (1 / 16)" by (simp only: ayl)
    then have ylo: "16 * \<bar>expected\<bar> \<le> \<bar>?y\<bar>" by (rule scale_down)
    have "1 / 2 ^ 1022 \<le> 16 * (1 / (2::real) ^ 1000)" by simp
    also have "\<dots> \<le> 16 * \<bar>expected\<bar>" using g(1) by (intro mult_left_mono) simp_all
    also note ylo
    finally have normal_lo: "1 / 2 ^ 1022 \<le> \<bar>?y\<bar>" .
    note yhi
    also have "32 * \<bar>expected\<bar> \<le> 32 * 2 ^ 1000" using g(2) by (intro mult_left_mono) simp_all
    also have "\<dots> \<le> (2::real) ^ 1023" by simp
    finally have normal_hi: "\<bar>?y\<bar> \<le> 2 ^ 1023" .
    from fl_normal[OF normal_lo normal_hi] obtain r where
      r: "fl ?y = Fin r" and r': "\<bar>r - ?y\<bar> \<le> \<bar>?y\<bar> / 2 ^ 53"
      by blast
    have "?y * (1 - 20 * l) = ?y - 20 * (?y * l)"
      by (simp add: algebra_simps)
    then have "?y - 20 * expected = ?y * (1 - 20 * l)"
      by (simp only: yl)
    then have "\<bar>?y - 20 * expected\<bar> = \<bar>?y\<bar> * \<bar>1 - 20 * l\<bar>"
      by (simp only: abs_mult)
    moreover have "\<bar>?y\<bar> * \<bar>1 - 20 * l\<bar> \<le> \<bar>?y\<bar> * (1 / 2 ^ 47)"
      using unit by (intro mult_left_mono) simp_all
    ultimately have "\<bar>?y - 20 * expected\<bar> \<le> \<bar>?y\<bar> * (1 / 2 ^ 47)" by simp
    with r' have "\<bar>r - 20 * expected\<bar> \<le> 20 * \<bar>expected\<bar> / 2 ^ 46"
      using yhi by (rule rounded_ratio_bound)
    then have "\<bar>r - expected / (5 / 100)\<bar> \<le> \<bar>expected / (5 / 100)\<bar> / 2 ^ 46"
      by (simp add: abs_mult mult.commute)
    with result r show ?thesis by simp
  qed
  with loss result show ?thesis by blast
qed

theorem calculate_risk_reward_above_price_witness:
  "1 / 2 ^ 1000 \<le> (150::real) \<and> (150::real) \<le> 2 ^ 1000 \<and> (150::real) < 155
   \<and> 1 / 2 ^ 1000 \<le> \<bar>341 / 12000 :: real\<bar> \<and> \<bar>341 / 12000 :: real\<bar> \<le> 2 ^ 1000
   \<and> (\<exists>ratio. calculate_risk_reward 150 (Some 155) (341 / 12000) = Inr (Fin ratio)
          \<and> \<bar>ratio - 341 / 12000 / (5 / 100)\<bar> \<le> \<bar>341 / 12000 / (5 / 100) :: real\<bar> / 2 ^ 46)"
proof -
  have h: "1 / 2 ^ 1000 \<le> (150::real)" "(150::real) \<le> 2 ^ 1000" "(150::real) < 155"
    by simp_all
  have g: "1 / 2 ^ 1000 \<le> \<bar>341 / 12000 :: real\<bar>" "\<bar>341 / 12000 :: real\<bar> \<le> 2 ^ 1000"
    by simp_all
  from calculate_risk_reward_above_price[OF h, of "341 / 12000"] g
  have "\<exists>ratio. calculate_risk_reward 150 (Some 155) (341 / 12000) = Inr (Fin ratio)
          \<and> \<bar>ratio - 341 / 12000 / (5 / 100)\<bar> \<le> \<bar>341 / 12000 / (5 / 100) :: real\<bar> / 2 ^ 46"
    by blast
  with h g show ?thesis by blast
qed

text \<open>
  The claim itself fails in the arithmetic of the program.  At price 1.0 with an expected
  return of 0.25 the result is \<open>5629499534213115 / 2 ^ 50\<close>, the double below 5, and not
  \<open>0.25 / 0.05 = 5\<close>; at the smallest positive double the stop loss rounds to the price
  itself, the loss is 0 and the result is the 10.0 of the branch that the claim calls
  unreachable.
\<close>

theorem calculate_risk_reward_not_exact:
  "calculate_risk_reward 1 (Some 2) (1 / 4) = Inr (Fin (5629499534213115 / 2 ^ 50))
   \<and> (5629499534213115 / 2 ^ 50 :: real) < 1 / 4 / (5 / 100)
   \<and> (0::real) < 1 / 2 ^ 1074 \<and> (1 / 2 ^ 1074 :: real) < 1
   \<and> calculate_risk_reward (1 / 2 ^ 1074) (Some 1) (1 / 4) = Inr (Fin 10)"
  by (intro conjI unit_risk_reward tiny_risk_reward) simp_all

lemma expected_return_with_target:
  assumes "price md = 150" and "target_strike pressure = Some 155"
    and "PressureSignal.probability_reach pressure = 62 / 100"
    and "short_squeeze_score fuel = 75"
  shows "composite_calculate_expected_return md pressure fuel =
           Inr (((155 - 150) / 150) * (62 / 100) * (1 + 75 / 200), Some 155)"
  using assms
  by (simp add: composite_calculate_expected_return_def truthy_def try_bind_def py_truediv_def
        Let_def)

text \<open>
  Claim C1, as amended.  With price 150, target strike 155, probability 0.62 and squeeze
  score 75, \<^verbatim>\<open>CompositeScorer._calculate_expected_return\<close> returns
  \<open>((155 - 150) / 150) * 0.62 * (1 + 75 / 200)\<close>, and the value of that product is
  \<open>341 / 12000\<close>, about 0.0284.
\<close>

theorem expected_return_scenario:
  assumes "price md = 150" and "target_strike pressure = Some 155"
    and "PressureSignal.probability_reach pressure = 62 / 100"
    and "short_squeeze_score fuel = 75"
  shows "composite_calculate_expected_return md pressure fuel =
           Inr (((155 - 150) / 150) * (62 / 100) * (1 + 75 / 200), Some 155)
       \<and> ((155 - 150) / 150) * (62 / 100) * (1 + 75 / 200) = (341 / 12000 :: real)
       \<and> (284 / 10000 :: real) < 341 / 12000 \<and> (341 / 12000 :: real) < 285 / 10000"
  using expected_return_with_target[OF assms] by simp

theorem expected_return_scenario_witness:
  "price scenario_market_data = 150 \<and> target_strike scenario_pressure = Some 155
   \<and> PressureSignal.probability_reach scenario_pressure = 62 / 100
   \<and> short_squeeze_score scenario_fuel = 75
   \<and> composite_calculate_expected_return scenario_market_data scenario_pressure scenario_fuel
       = Inr (341 / 12000, Some 155)"
proof -
  have h: "price scenario_market_data = 150" "target_strike scenario_pressure = Some 155"
    "PressureSignal.probability_reach scenario_pressure = 62 / 100"
    "short_squeeze_score scenario_fuel = 75"
    by (simp_all add: scenario_market_data_def scenario_pressure_def scenario_fuel_def)
  show ?thesis
    using h expected_return_scenario[OF h] by simp
qed

text \<open>
  The value 0.0431 that the claim gives for the scenario is off by more than 0.01.
\<close>

theorem expected_return_scenario_not_0431:
  "composite_calculate_expected_return scenario_market_data scenario_pressure scenario_fuel
     = Inr (341 / 12000, Some 155)
   \<and> (1 / 100 :: real) < \<bar>341 / 12000 - 431 / 10000\<bar>"
  by (simp add: composite_calculate_expected_return_def truthy_def try_bind_def py_truediv_def
        Let_def scenario_market_data_def scenario_pressure_def scenario_fuel_def)

section \<open>Benchmark\<close>

lemma closes_from_head: "closes_from c rs = c # tl (closes_from c rs)"
  by (cases rs) simp_all

lemma length_closes_from [simp]: "length (closes_from c rs) = Suc (length rs)"
  by (induction rs arbitrary: c) simp_all

lemma pct_change_closes_from:
  assumes "0 < c" and "\<forall>r \<in> set rs. - 1 < r"
  shows "pct_change (closes_from c rs) = NaN # map Fin rs"
proof -
  have step: "map2 change (closes_from c rs) (tl (closes_from c rs)) = map Fin rs"
    if "0 < c" and "\<forall>r \<in> set rs. - 1 < r" for c rs
    using that
  proof (induction rs arbitrary: c)
    case Nil
    then show ?case by simp
  next
    case (Cons r rs)
    let ?c' = "c * (1 + r)"
    let ?L = "closes_from ?c' rs"
    have pos: "0 < ?c'" using Cons.prems by simp
    have L: "?L = ?c' # tl ?L" by (rule closes_from_head)
    have IH: "map2 change ?L (tl ?L) = map Fin rs"
      using Cons.IH[OF pos] Cons.prems by simp
    have first: "change c ?c' = Fin r"
      using Cons.prems by (simp add: change_def field_simps)
    have "map2 change (c # ?L) ?L = map2 change (c # ?L) (?c' # tl ?L)"
      using L by simp
    also have "\<dots> = Fin r # map Fin rs"
      using first IH by simp
    finally show ?case by simp
  qed
  have "pct_change (closes_from c rs) = pct_change (c # tl (closes_from c rs))"
    by (subst closes_from_head) (rule refl)
  also have "\<dots> = NaN # map2 change (c # tl (closes_from c rs)) (tl (closes_from c rs))"
    by (simp add: pct_change_def)
  also have "c # tl (closes_from c rs) = closes_from c rs"
    by (rule closes_from_head[symmetric])
  finally show ?thesis using step[OF assms] by simp
qed

text \<open>The result for four periods, in terms of the two statistics of the returns.\<close>

lemma btc_expected_four_periods:
  assumes periods: "get_periods_for_timeframe timeframe = Inr 4"
    and rows: "8 \<le> length (Close btc_data)"
    and momentum: "series_mean (tail 4 (pct_change (Close btc_data))) = Fin m"
    and vol: "series_std (tail 16 (pct_change (Close btc_data))) = Fin v"
  shows "btc_calculate_expected_return btc_data timeframe =
           Inr (Fin (min (max (if v * (5 / 10) < \<bar>m\<bar> then \<bar>m * 4\<bar>
                               else min \<bar>m * 4\<bar> (v * 2)) (1 / 100)) (12 / 100)))"
  using rows
  by (simp add: btc_calculate_expected_return_def get_max_expectation_for_timeframe_def
        periods momentum vol try_bind_def Let_def np_sqrt_def
        py_min_def py_max_def min_def max_def abs_mult)

lemma periods_4h: "get_periods_for_timeframe ''4h'' = Inr 4"
  by (simp add: get_periods_for_timeframe_def py_int_def strip_def is_space_def is_digit_def
        digit_value_def try_bind_def Let_def)

lemma periods_hour: "get_periods_for_timeframe ''hour'' = Inl ValueError"
  by (simp add: get_periods_for_timeframe_def py_int_def strip_def is_space_def is_digit_def
        digit_value_def try_bind_def Let_def)

text \<open>\<^verbatim>\<open>int\<close> does not strip the separator characters 28 to 31.\<close>

lemma separator_is_no_space:
  "get_periods_for_timeframe [CHR 0x1C, CHR ''4'', CHR ''h''] = Inl ValueError"
  by (simp add: get_periods_for_timeframe_def py_int_def strip_def is_space_def is_digit_def
        digit_value_def try_bind_def Let_def)

lemma example_pct_change: "pct_change (Close example_btc_data) = NaN # map Fin example_returns"
proof -
  have "Close example_btc_data = closes_from 100 example_returns"
    by (simp add: example_btc_data_def)
  moreover have "\<forall>r \<in> set example_returns. - 1 < r"
    by (simp add: example_returns_def)
  ultimately show ?thesis
    by (simp add: pct_change_closes_from)
qed

lemma example_momentum:
  "series_mean (tail 4 (pct_change (Close example_btc_data))) = Fin (2 / 1000)"
  by (simp add: example_pct_change example_returns_def tail_def series_mean_def)

lemma example_vol:
  "series_std (tail 16 (pct_change (Close example_btc_data))) = Fin (1 / 100)"
proof -
  have "std example_returns = Some (sqrt (1 / 10000))"
    by (simp add: example_returns_def std_def power2_eq_square)
  moreover have "sqrt (1 / 10000) = 1 / 100"
    by (simp add: real_sqrt_divide)
  ultimately have "std example_returns = Some (1 / 100)" by simp
  moreover have "finite_values (map Fin example_returns) = example_returns"
    by (simp add: example_returns_def)
  ultimately show ?thesis
    by (simp add: example_pct_change tail_def series_std_def Let_def)
      (simp add: example_returns_def)
qed

lemma example_rows: "8 \<le> length (Close example_btc_data)"
  by (simp add: example_btc_data_def example_returns_def)

lemma example_4h: "btc_calculate_expected_return example_btc_data ''4h'' = Inr (Fin (1 / 100))"
  using btc_expected_four_periods[OF periods_4h example_rows example_momentum example_vol]
  by simp

lemma example_hour: "btc_calculate_expected_return example_btc_data ''hour'' = Inl ValueError"
  by (simp add: btc_calculate_expected_return_def periods_hour try_bind_def)

text \<open>
  Claim C2, as amended.  With four periods, enough history, momentum 0.002 and volatility
  0.01, \<^verbatim>\<open>BTCBenchmark._calculate_expected_return\<close> returns 0.01: the momentum is not
  dominant (0.002 is not above 0.005), so the smaller of the two expectations, 0.008, is
  kept, and the lower clamp raises it to 0.01.
\<close>

theorem btc_expected_return_scenario:
  assumes "get_periods_for_timeframe timeframe = Inr 4"
    and "8 \<le> length (Close btc_data)"
    and "series_mean (tail 4 (pct_change (Close btc_data))) = Fin (2 / 1000)"
    and "series_std (tail 16 (pct_change (Close btc_data))) = Fin (1 / 100)"
  shows "btc_calculate_expected_return btc_data timeframe = Inr (Fin (1 / 100))"
  using btc_expected_four_periods[OF assms] by simp

theorem btc_expected_return_scenario_witness:
  "get_periods_for_timeframe ''4h'' = Inr 4
   \<and> 8 \<le> length (Close example_btc_data)
   \<and> series_mean (tail 4 (pct_change (Close example_btc_data))) = Fin (2 / 1000)
   \<and> series_std (tail 16 (pct_change (Close example_btc_data))) = Fin (1 / 100)
   \<and> btc_calculate_expected_return example_btc_data ''4h'' = Inr (Fin (1 / 100))"
  using btc_expected_return_scenario[OF periods_4h example_rows example_momentum example_vol]
    periods_4h example_rows example_momentum example_vol
  by simp

text \<open>
  On a history with exactly these statistics the result is not the 0.02 of the claim.
\<close>

theorem btc_expected_return_scenario_not_002:
  "get_periods_for_timeframe ''4h'' = Inr 4
   \<and> series_mean (tail 4 (pct_change (Close example_btc_data))) = Fin (2 / 1000)
   \<and> series_std (tail 16 (pct_change (Close example_btc_data))) = Fin (1 / 100)
   \<and> btc_calculate_expected_return example_btc_data ''4h'' \<noteq> Inr (Fin (2 / 100))"
  using example_4h periods_4h example_momentum example_vol by simp

text \<open>A zero close gives an infinite return: after the closes 0 and 64 the momentum is
  infinite, the volatility is NaN, and the result for one hour is the cap 0.05.\<close>

lemma zero_close_example:
  "btc_calculate_expected_return \<lparr> Close = [0, 64] \<rparr> ''1h'' = Inr (Fin (5 / 100))"
proof -
  have "get_periods_for_timeframe ''1h'' = Inr 1"
    by (simp add: get_periods_for_timeframe_def py_int_def strip_def is_space_def is_digit_def
        digit_value_def try_bind_def Let_def)
  then show ?thesis
    by (simp add: btc_calculate_expected_return_def get_max_expectation_for_timeframe_def
        try_bind_def Let_def pct_change_def change_def tail_def series_mean_def series_std_def
        np_sqrt_def py_min_def py_max_def)
qed

text \<open>The cache test as the code makes it: a hit needs an entry whose seconds field, not
  whose age, is below the duration.\<close>

lemma cache_lookup_hit_iff:
  "cache_lookup self now cache_key = Some v \<longleftrightarrow>
     (\<exists>t. cache self cache_key = Some (t, v)
          \<and> ((now - t) div 1000000) mod 86400 < cache_duration self)"
  by (auto simp: cache_lookup_def timedelta_seconds_def split: option.splits)

lemma get_expected_return_hit:
  "cache_lookup self now (''btc_return_'' @ timeframe) = Some v \<Longrightarrow>
   get_expected_return frame_truth self now now' history timeframe = (v, self)"
  by (simp add: get_expected_return_def)

text \<open>With the truth test of pandas, a cache miss always ends in the default and nothing
  is ever stored; so an object that starts with an empty cache keeps it, call after call.\<close>

lemma pandas_truth_never_caches:
  "snd (get_expected_return dataframe_bool self now now' history timeframe) = self"
  "cache_lookup self now (''btc_return_'' @ timeframe) = None \<Longrightarrow>
   fst (get_expected_return dataframe_bool self now now' history timeframe) = Fin (2 / 100)"
  by (auto simp: get_expected_return_def dataframe_bool_def try_bind_def Let_def
        split: option.splits sum.splits)

lemma pandas_truth_first_call:
  "get_expected_return dataframe_bool btc_benchmark_init now now' history timeframe
   = (Fin (2 / 100), btc_benchmark_init)"
proof -
  have "cache_lookup btc_benchmark_init now (''btc_return_'' @ timeframe) = None"
    by (simp add: cache_lookup_def btc_benchmark_init_def)
  from pandas_truth_never_caches(2)[OF this] pandas_truth_never_caches(1)
  show ?thesis by (simp add: prod_eq_iff)
qed

lemma pandas_truth_all_calls:
  "get_expected_return_calls dataframe_bool btc_benchmark_init calls
   = (map (\<lambda>call. Fin (2 / 100)) calls, btc_benchmark_init)"
  by (induction calls) (auto simp: pandas_truth_first_call)

text \<open>
  Claim C7.  The cache is never filled.  \<^verbatim>\<open>get_expected_return\<close> tests the fetched
  frame with \<^verbatim>\<open>not btc_data\<close>, and pandas answers the truth test of a frame with
  ValueError; the \<^verbatim>\<open>except\<close> clause turns it into the default 0.02 before anything is
  computed or stored.  On a history for which \<^verbatim>\<open>_calculate_expected_return\<close> gives 0.01, a
  first call returns 0.02 and leaves the cache empty, and a second call ten seconds later
  finds no entry, asks for the history again and returns 0.02 again.
\<close>

theorem truth_test_prevents_caching:
  "btc_calculate_expected_return example_btc_data ''4h'' = Inr (Fin (1 / 100))
   \<and> get_expected_return dataframe_bool btc_benchmark_init 0 1 (Inr example_btc_data) ''4h''
       = (Fin (2 / 100), btc_benchmark_init)
   \<and> cache_lookup btc_benchmark_init 10000000 ''btc_return_4h'' = None
   \<and> get_expected_return_calls dataframe_bool btc_benchmark_init
        [(0, 1, Inr example_btc_data, ''4h''), (10000000, 10000001, Inr example_btc_data, ''4h'')]
       = ([Fin (2 / 100), Fin (2 / 100)], btc_benchmark_init)"
proof -
  have "cache_lookup btc_benchmark_init 10000000 ''btc_return_4h'' = None"
    by (simp add: cache_lookup_def btc_benchmark_init_def)
  moreover have "get_expected_return_calls dataframe_bool btc_benchmark_init
        [(0, 1, Inr example_btc_data, ''4h''), (10000000, 10000001, Inr example_btc_data, ''4h'')]
       = ([Fin (2 / 100), Fin (2 / 100)], btc_benchmark_init)"
    by (simp only: pandas_truth_all_calls list.map)
  ultimately show ?thesis
    using example_4h pandas_truth_first_call by blast
qed

text \<open>
  Claim C9.  When no cached value is served and the history request raises, or returns an
  empty frame, or the truth test of the frame or the computation raises, then
  \<^verbatim>\<open>get_expected_return\<close> returns 0.02 and leaves the object, and so its cache, as it was.
\<close>

theorem get_expected_return_failure_default:
  assumes miss: "cache_lookup self now (''btc_return_'' @ timeframe) = None"
    and failure:
      "(\<exists>e. history = Inl e)
       \<or> (\<exists>hist. history = Inr hist \<and> Close hist = [])
       \<or> (\<exists>hist e. history = Inr hist
              \<and> (frame_truth hist = Inl e \<or> btc_calculate_expected_return hist timeframe = Inl e))"
  shows "get_expected_return frame_truth self now now' history timeframe = (Fin (2 / 100), self)"
  using miss failure
  by (auto simp: get_expected_return_def fetch_btc_data_def try_bind_def Let_def
        split: sum.splits option.splits)

theorem get_expected_return_failure_default_witness:
  "cache_lookup stale_benchmark 400000000 (''btc_return_'' @ ''hour'') = None
   \<and> btc_calculate_expected_return example_btc_data ''hour'' = Inl ValueError
   \<and> get_expected_return frame_is_true stale_benchmark 400000000 400000001
        (Inl FetchError) ''hour'' = (Fin (2 / 100), stale_benchmark)
   \<and> get_expected_return frame_is_true stale_benchmark 400000000 400000001
        (Inr \<lparr> Close = [] \<rparr>) ''hour'' = (Fin (2 / 100), stale_benchmark)
   \<and> get_expected_return dataframe_bool stale_benchmark 400000000 400000001
        (Inr example_btc_data) ''hour'' = (Fin (2 / 100), stale_benchmark)
   \<and> get_expected_return frame_is_true stale_benchmark 400000000 400000001
        (Inr example_btc_data) ''hour'' = (Fin (2 / 100), stale_benchmark)"
proof -
  have miss: "cache_lookup stale_benchmark 400000000 (''btc_return_'' @ ''hour'') = None"
    by (simp add: cache_lookup_def stale_benchmark_def btc_benchmark_init_def)
  have f1: "(\<exists>e. (Inl FetchError :: py_error + DataFrame) = Inl e)
       \<or> (\<exists>hist. (Inl FetchError :: py_error + DataFrame) = Inr hist \<and> Close hist = [])
       \<or> (\<exists>hist e. (Inl FetchError :: py_error + DataFrame) = Inr hist
              \<and> (frame_is_true hist = Inl e
                  \<or> btc_calculate_expected_return hist ''hour'' = Inl e))"
    by simp
  have f2: "(\<exists>e. (Inr \<lparr> Close = [] \<rparr> :: py_error + DataFrame) = Inl e)
       \<or> (\<exists>hist. (Inr \<lparr> Close = [] \<rparr> :: py_error + DataFrame) = Inr hist \<and> Close hist = [])
       \<or> (\<exists>hist e. (Inr \<lparr> Close = [] \<rparr> :: py_error + DataFrame) = Inr hist
              \<and> (frame_is_true hist = Inl e
                  \<or> btc_calculate_expected_return hist ''hour'' = Inl e))"
    by simp
  have f3: "(\<exists>e. (Inr example_btc_data :: py_error + DataFrame) = Inl e)
       \<or> (\<exists>hist. (Inr example_btc_data :: py_error + DataFrame) = Inr hist \<and> Close hist = [])
       \<or> (\<exists>hist e. (Inr example_btc_data :: py_error + DataFrame) = Inr hist
              \<and> (dataframe_bool hist = Inl e
                  \<or> btc_calculate_expected_return hist ''hour'' = Inl e))"
    by (auto simp: dataframe_bool_def)
  have f4: "(\<exists>e. (Inr example_btc_data :: py_error + DataFrame) = Inl e)
       \<or> (\<exists>hist. (Inr example_btc_data :: py_error + DataFrame) = Inr hist \<and> Close hist = [])
       \<or> (\<exists>hist e. (Inr example_btc_data :: py_error + DataFrame) = Inr hist
              \<and> (frame_is_true hist = Inl e
                  \<or> btc_calculate_expected_return hist ''hour'' = Inl e))"
    by (auto simp: example_hour)
  show ?thesis
    using miss example_hour
      get_expected_return_failure_default[OF miss f1, of 400000001]
      get_expected_return_failure_default[OF miss f2, of 400000001]
      get_expected_return_failure_default[OF miss f3, of 400000001]
      get_expected_return_failure_default[OF miss f4, of 400000001]
    by simp
qed

section \<open>Pressure engine\<close>

lemma clamp_probability_range:
  "1 / 100 \<le> clamp_probability p \<and> clamp_probability p \<le> 99 / 100"
  by (cases p) (simp_all add: clamp_probability_def)

lemma calculate_probability_reach_cases:
  assumes "calculate_probability_reach cdf current_price k od = Inr r"
  shows "(k = current_price \<and> r = 1) \<or> (k \<noteq> current_price \<and> 1 / 100 \<le> r \<and> r \<le> 99 / 100)"
proof (cases "k = current_price")
  case True
  with assms show ?thesis by (simp add: calculate_probability_reach_def)
next
  case False
  with assms obtain p where "r = clamp_probability p"
    by (auto simp: calculate_probability_reach_def try_bind_def Let_def split: sum.splits)
  with False show ?thesis using clamp_probability_range[of p] by simp
qed

lemma find_gamma_walls_loop_gamma_nonneg:
  "find_gamma_walls_loop cdf current_price od ks = Inr walls \<Longrightarrow> \<forall>w \<in> set walls. 0 \<le> gamma_value w"
proof (induction ks arbitrary: walls)
  case Nil
  then show ?case by simp
next
  case (Cons k ks)
  then show ?case
    by (auto simp: Let_def split: sum.splits if_splits)
qed

lemma find_gamma_walls_gamma_nonneg:
  "find_gamma_walls cdf md od = Inr walls \<Longrightarrow> \<forall>w \<in> set walls. 0 \<le> gamma_value w"
  by (auto simp: find_gamma_walls_def try_bind_def split: sum.splits
      dest: find_gamma_walls_loop_gamma_nonneg)

lemma calculate_pressure_score_range:
  assumes "0 \<le> probability" and "\<forall>w \<in> set walls. 0 \<le> gamma_value w"
  shows "0 \<le> calculate_pressure_score probability flow pcr walls
       \<and> calculate_pressure_score probability flow pcr walls \<le> 100"
proof -
  have "0 \<le> (case walls of [] \<Rightarrow> 0 | strongest # _ \<Rightarrow> min 10 (gamma_value strongest / 5000))"
    using assms(2) by (cases walls) simp_all
  with assms(1) show ?thesis
    by (simp add: calculate_pressure_score_def Let_def)
qed

text \<open>What the try block of the pressure engine returns.\<close>

lemma pressure_analyze_try_result:
  assumes "pressure_analyze_try rng cdf md od = Inr s"
  shows "\<exists>od' walls pcr.
           (\<forall>w \<in> set walls. 0 \<le> gamma_value w)
         \<and> PressureSignal.score s
             = calculate_pressure_score (PressureSignal.probability_reach s) (dealer_flow s) pcr walls
         \<and> ((target_strike s = None \<and> PressureSignal.probability_reach s = 0)
            \<or> (\<exists>k. target_strike s = Some k
                   \<and> calculate_probability_reach cdf (price md) k od'
                       = Inr (PressureSignal.probability_reach s)))"
proof -
  from assms obtain od' walls pain pcr pt where
      walls: "find_gamma_walls cdf md od' = Inr walls"
    and pt: "(case find_target_wall (price md) walls of
                None \<Rightarrow> Inr (0, None)
              | Some wall \<Rightarrow>
                  try_bind (calculate_probability_reach cdf (price md) (strike wall) od')
                    (\<lambda>p. Inr (p, Some (strike wall)))) = Inr pt"
    and s: "s = \<lparr> target_strike = snd pt,
                  PressureSignal.probability_reach = fst pt,
                  dealer_flow = determine_dealer_flow walls pcr (price md) pain,
                  nearest_walls = slice_to 3 walls,
                  max_pain = pain,
                  put_call_ratio = pcr,
                  PressureSignal.score =
                    calculate_pressure_score (fst pt)
                      (determine_dealer_flow walls pcr (price md) pain) pcr walls \<rparr>"
    by (auto simp: pressure_analyze_try_def try_bind_def Let_def split: sum.splits prod.splits)
  have "(snd pt = None \<and> fst pt = 0)
        \<or> (\<exists>k. snd pt = Some k \<and> calculate_probability_reach cdf (price md) k od' = Inr (fst pt))"
    using pt by (auto simp: try_bind_def split: option.splits sum.splits)
  with find_gamma_walls_gamma_nonneg[OF walls] s show ?thesis
    by (intro exI[of _ od'] exI[of _ walls] exI[of _ pcr]) simp
qed

lemma pressure_analyze_probability:
  fixes rng cdf md od
  defines "s \<equiv> pressure_analyze rng cdf md od"
  shows "(target_strike s = None \<and> PressureSignal.probability_reach s = 0)
       \<or> (target_strike s = Some (price md) \<and> PressureSignal.probability_reach s = 1)
       \<or> (\<exists>k. target_strike s = Some k \<and> k \<noteq> price md
              \<and> 1 / 100 \<le> PressureSignal.probability_reach s
              \<and> PressureSignal.probability_reach s \<le> 99 / 100)"
proof (cases "pressure_analyze_try rng cdf md od")
  case (Inl e)
  then show ?thesis
    by (simp add: s_def pressure_analyze_def neutral_pressure_signal_def)
next
  case (Inr t)
  then have st: "s = t" by (simp add: s_def pressure_analyze_def)
  from pressure_analyze_try_result[OF Inr] obtain od' where
    "(target_strike t = None \<and> PressureSignal.probability_reach t = 0)
     \<or> (\<exists>k. target_strike t = Some k
            \<and> calculate_probability_reach cdf (price md) k od'
                = Inr (PressureSignal.probability_reach t))"
    by blast
  then show ?thesis
    unfolding st using calculate_probability_reach_cases by blast
qed

lemma pressure_analyze_score_range:
  "0 \<le> PressureSignal.score (pressure_analyze rng cdf md od)
   \<and> PressureSignal.score (pressure_analyze rng cdf md od) \<le> 100"
proof (cases "pressure_analyze_try rng cdf md od")
  case (Inl e)
  then show ?thesis
    by (simp add: pressure_analyze_def neutral_pressure_signal_def)
next
  case (Inr t)
  then have st: "pressure_analyze rng cdf md od = t" by (simp add: pressure_analyze_def)
  from pressure_analyze_try_result[OF Inr] obtain walls pcr where
      w: "\<forall>w \<in> set walls. 0 \<le> gamma_value w"
    and sc: "PressureSignal.score t
             = calculate_pressure_score (PressureSignal.probability_reach t) (dealer_flow t) pcr walls"
    by blast
  have "0 \<le> PressureSignal.probability_reach t"
    using pressure_analyze_probability[of rng cdf md od] unfolding st by auto
  then show ?thesis
    unfolding st sc using calculate_pressure_score_range[OF _ w] by blast
qed

section \<open>Fuel engine\<close>

lemma calculate_squeeze_score_range:
  "0 \<le> calculate_squeeze_score fd rv \<and> calculate_squeeze_score fd rv \<le> 100"
  by (simp add: calculate_squeeze_score_def Let_def)

lemma calculate_fuel_score_range:
  assumes "surge \<longrightarrow> 2 \<le> rv" and "0 \<le> squeeze"
  shows "0 \<le> calculate_fuel_score lf hs hb surge rv squeeze
       \<and> calculate_fuel_score lf hs hb surge rv squeeze \<le> 100"
proof -
  have "0 \<le> (if surge then min 20 ((rv - 2) * 5) else 0)"
    using assms(1) by simp
  moreover have "0 \<le> min 10 (squeeze / 10)"
    using assms(2) by simp
  ultimately show ?thesis
    by (simp add: calculate_fuel_score_def Let_def)
qed

lemma fuel_analyze_score_range:
  assumes "2 \<le> MIN_VOLUME_MULTIPLE cfg"
  shows "0 \<le> FuelSignal.score (fuel_analyze cfg rng md fd)
       \<and> FuelSignal.score (fuel_analyze cfg rng md fd) \<le> 100"
proof (cases "fuel_analyze_try cfg rng md fd")
  case (Inl e)
  then show ?thesis by (simp add: fuel_analyze_def neutral_fuel_signal_def)
next
  case (Inr s)
  then obtain fd' rv where
    "FuelSignal.score s =
       calculate_fuel_score (float_shares fd' < MAX_FLOAT_SIZE cfg) (short_percent fd' > 15)
         (borrow_fee fd' > 50) (rv > MIN_VOLUME_MULTIPLE cfg) rv (calculate_squeeze_score fd' rv)"
    by (auto simp: fuel_analyze_try_def try_bind_def Let_def split: sum.splits)
  moreover have "rv > MIN_VOLUME_MULTIPLE cfg \<longrightarrow> 2 \<le> rv" for rv
    using assms by simp
  ultimately show ?thesis
    using Inr calculate_fuel_score_range calculate_squeeze_score_range
    by (simp add: fuel_analyze_def)
qed

section \<open>Ignition engine\<close>

lemma calculate_ignition_score_range:
  assumes res: "calculate_ignition_score cfg slope ratio' distance vm ee et = Inr s"
    and max_nonneg: "0 \<le> MAX_DISTANCE_FROM_HOD_LOD cfg"
    and timing: "et \<longrightarrow> distance < MAX_DISTANCE_FROM_HOD_LOD cfg"
    and energy: "ee \<longrightarrow> nan_greater ratio' (15 / 10)"
  shows "0 \<le> s \<and> s \<le> 100"
proof -
  let ?M = "MAX_DISTANCE_FROM_HOD_LOD cfg"
  have a: "0 \<le> (case slope of None \<Rightarrow> 40 | Some sl \<Rightarrow> min 40 (\<bar>sl\<bar> * 10000))"
    by (cases slope) simp_all
  have b: "ee \<Longrightarrow> 0 \<le> (case ratio' of None \<Rightarrow> 35 | Some r \<Rightarrow> min 35 ((r - 1) * 35))"
    using energy by (cases ratio') (simp_all add: nan_greater_def)
  have c: "et \<Longrightarrow> ?M \<noteq> 0 \<Longrightarrow> 0 \<le> (?M - distance) / ?M * 25"
    using timing max_nonneg by simp
  from res a b c show ?thesis
    by (auto simp: calculate_ignition_score_def try_bind_def py_truediv_def Let_def
        split: if_splits)
qed

lemma ignition_analyze_score_range:
  assumes "0 \<le> MAX_DISTANCE_FROM_HOD_LOD cfg"
  shows "0 \<le> IgnitionSignal.score (ignition_analyze cfg normal nf md hist)
       \<and> IgnitionSignal.score (ignition_analyze cfg normal nf md hist) \<le> 100"
proof (cases "ignition_analyze_try cfg normal nf md hist")
  case (Inl e)
  then show ?thesis by (simp add: ignition_analyze_def neutral_ignition_signal_def)
next
  case (Inr s)
  then obtain slope ratio' distance where
    "calculate_ignition_score cfg slope ratio' distance (nan_greater slope (1 / 1000))
       (nan_greater ratio' (15 / 10)) (distance < MAX_DISTANCE_FROM_HOD_LOD cfg)
     = Inr (IgnitionSignal.score s)"
    by (auto simp: ignition_analyze_try_def try_bind_def Let_def split: sum.splits prod.splits)
  from calculate_ignition_score_range[OF this assms] Inr show ?thesis
    by (simp add: ignition_analyze_def)
qed

section \<open>Composite score\<close>

lemma calculate_combination_bonus_nonneg: "0 \<le> calculate_combination_bonus i p f"
  by (simp add: calculate_combination_bonus_def Let_def)

lemma calculate_weighted_score_range:
  assumes "0 \<le> IgnitionSignal.score i" "0 \<le> PressureSignal.score p" "0 \<le> FuelSignal.score f"
    and "0 \<le> VWAP_MOMENTUM_WEIGHT cfg" "0 \<le> OPTIONS_PRESSURE_WEIGHT cfg" "0 \<le> VOLUME_WEIGHT cfg"
  shows "0 \<le> calculate_weighted_score cfg i p f \<and> calculate_weighted_score cfg i p f \<le> 100"
proof -
  have "0 \<le> IgnitionSignal.score i * (VWAP_MOMENTUM_WEIGHT cfg / 100)"
    "0 \<le> PressureSignal.score p * (OPTIONS_PRESSURE_WEIGHT cfg / 100)"
    "0 \<le> FuelSignal.score f * (VOLUME_WEIGHT cfg / 100)"
    using assms by simp_all
  with calculate_combination_bonus_nonneg[of i p f] show ?thesis
    by (simp add: calculate_weighted_score_def Let_def)
qed

section \<open>The engines on the example inputs\<close>

lemma no_strikes_signal:
  "pressure_analyze zero_draws half_cdf scenario_market_data (Some no_strikes_options)
   = \<lparr> target_strike = None, PressureSignal.probability_reach = 0, dealer_flow = ''neutral'',
       nearest_walls = [], max_pain = 150, put_call_ratio = Finite 1,
       PressureSignal.score = 0 \<rparr>"
  by (simp add: pressure_analyze_def pressure_analyze_try_def try_bind_def find_gamma_walls_def
      no_strikes_options_def scenario_market_data_def sorted_desc_def find_target_wall_def
      calculate_max_pain_def dict_keys_def calculate_put_call_ratio_def dict_values_def
      determine_dealer_flow_def calculate_pressure_score_def slice_to_def)

lemma at_price_walls:
  "find_gamma_walls half_cdf scenario_market_data at_price_options
   = Inr [\<lparr> strike = 150, gamma_value = 5000, net_positioning = 5000,
            distance_from_price = 0, GammaWall.probability_reach = 1 \<rparr>]"
  by (simp add: find_gamma_walls_def try_bind_def at_price_options_def scenario_market_data_def
      sorted_desc_def dict_get_def py_truediv_def calculate_probability_reach_def
      float_of_int_def DBL_LIMIT_def)

lemma at_price_max_pain: "calculate_max_pain 150 at_price_options = Inr 150"
  by (simp add: calculate_max_pain_def total_pain_def try_bind_def dict_set_def dict_keys_def
      at_price_options_def)

lemma at_price_signal:
  "target_strike (pressure_analyze zero_draws half_cdf scenario_market_data
                    (Some at_price_options)) = Some 150
   \<and> PressureSignal.probability_reach
        (pressure_analyze zero_draws half_cdf scenario_market_data (Some at_price_options)) = 1"
proof -
  have p: "price scenario_market_data = 150" by (simp add: scenario_market_data_def)
  have pcr: "calculate_put_call_ratio at_price_options = Inr (Finite 1)"
    by (simp add: calculate_put_call_ratio_def at_price_options_def dict_values_def
        int_truediv_def DBL_LIMIT_def try_bind_def)
  show ?thesis
    by (simp add: pressure_analyze_def pressure_analyze_try_def try_bind_def at_price_walls
        find_target_wall_def p pcr at_price_max_pain calculate_probability_reach_def Let_def)
qed

lemma exp_sixth: "5 / 6 \<le> exp (- (1 / 6) :: real)"
  using exp_ge_add_one_self[of "- (1 / 6) :: real"] by simp

lemma above_price_probability:
  "calculate_probability_reach half_cdf 150 155 above_price_options = Inr (1 / 2)"
proof -
  have "\<exists>x. calculate_d2 (150 / 155) (np_mean [3 / 10]) = Fin x"
    by (simp add: calculate_d2_def np_mean_def Let_def)
  then obtain x where "calculate_d2 (150 / 155) (np_mean [3 / 10]) = Fin x" ..
  then show ?thesis
    by (simp add: calculate_probability_reach_def above_price_options_def dict_values_def
        try_bind_def py_truediv_def Let_def clamp_probability_def half_cdf_def)
qed

lemma above_price_walls:
  "find_gamma_walls half_cdf scenario_market_data above_price_options
   = Inr [\<lparr> strike = 155, gamma_value = 6000 * exp (- (1 / 6)),
            net_positioning = 6000 * exp (- (1 / 6)),
            distance_from_price = 1 / 30, GammaWall.probability_reach = 1 / 2 \<rparr>]"
proof -
  have big: "1000 < \<bar>6000 * exp (- (1 / 6) :: real)\<bar>"
    using exp_sixth by simp
  have fields: "strikes above_price_options = [155]"
    "calls_oi above_price_options = [(155, 6000)]" "puts_oi above_price_options = [(155, 0)]"
    by (simp_all add: above_price_options_def)
  show ?thesis
    using big
    by (simp add: find_gamma_walls_def try_bind_def fields above_price_probability
        scenario_market_data_def sorted_desc_def dict_get_def py_truediv_def Let_def
        float_of_int_def DBL_LIMIT_def)
qed

lemma above_price_max_pain: "calculate_max_pain 150 above_price_options = Inr 155"
  by (simp add: calculate_max_pain_def total_pain_def try_bind_def dict_set_def dict_keys_def
      dict_get_def above_price_options_def float_of_int_def DBL_LIMIT_def)

lemma above_price_signal:
  "target_strike (pressure_analyze zero_draws half_cdf scenario_market_data
                    (Some above_price_options)) = Some 155"
proof -
  have p: "price scenario_market_data = 150" by (simp add: scenario_market_data_def)
  have pcr: "calculate_put_call_ratio above_price_options = Inr (Finite 1)"
    by (simp add: calculate_put_call_ratio_def above_price_options_def dict_values_def
        int_truediv_def DBL_LIMIT_def try_bind_def)
  show ?thesis
    by (simp add: pressure_analyze_def pressure_analyze_try_def try_bind_def above_price_walls
        find_target_wall_def p pcr above_price_max_pain above_price_probability Let_def)
qed

text \<open>\<^verbatim>\<open>round\<close> works on the double: at price 2.675, the double just below that decimal,
  the middle strike is 2.67 and not 2.68.\<close>

lemma price_2675: "fl (2675 / 1000) = Fin (3011782250804019 / 2 ^ 50)"
proof -
  have "fl (2675 / 1000)
        = Fin (real_of_int 6023564501608038 * 2 powi (max 1 (- 1022) - 52))"
    by (rule fl_eqI2[where e = 1])
      (simp_all add: power_int_minus round_half_even_def Let_def)
  then show ?thesis by (simp add: power_int_minus)
qed

lemma strike_267: "fl (267 / 100) = Fin (1503076375634903 / 2 ^ 49)"
proof -
  have "fl (267 / 100)
        = Fin (real_of_int 6012305502539612 * 2 powi (max 1 (- 1022) - 52))"
    by (rule fl_eqI2[where e = 1])
      (simp_all add: power_int_minus round_half_even_def Let_def)
  then show ?thesis by (simp add: power_int_minus)
qed

lemma strike_at_2675:
  "py_round2 (fl_real (2675 / 1000)) = 1503076375634903 / 2 ^ 49
   \<and> (1503076375634903 / 2 ^ 49 :: real) < 268 / 100"
proof -
  have a: "fl_real (2675 / 1000) = 3011782250804019 / 2 ^ 50"
    by (simp only: fl_real_def price_2675 npfloat.case)
  have b: "round_half_even (3011782250804019 / 2 ^ 50 * 100) = 267"
    by (simp add: round_half_even_def Let_def)
  have "real_of_int 267 / 100 = 267 / 100" by simp
  then have c: "fl_real (real_of_int 267 / 100) = 1503076375634903 / 2 ^ 49"
    by (simp only: fl_real_def strike_267 npfloat.case)
  have "py_round2 (fl_real (2675 / 1000)) = 1503076375634903 / 2 ^ 49"
    by (simp only: py_round2_def a b c)
  then show ?thesis by simp
qed

section \<open>Inputs on which an engine raises\<close>

lemma ignition_zero_price:
  assumes "price md = 0"
  shows "\<exists>e. ignition_analyze_try cfg normal nf md hist = Inl e"
  using assms
  by (auto simp: ignition_analyze_try_def try_bind_def py_truediv_def Let_def
      split: sum.splits prod.splits)

lemma ignition_empty_history:
  "ignition_analyze_try cfg normal nf md (Some []) = Inl IndexError"
  by (simp add: ignition_analyze_try_def calculate_vwap_spread_def rolling_def
      calculate_slope_def calculate_bollinger_bands_def try_bind_def last_item_def Let_def)

text \<open>At price 0 the synthetic chain has strikes: the last of them is 5.0.\<close>

lemma fl_five: "fl 5 = Fin 5"
proof -
  have "fl 5 = Fin (real_of_int 5629499534213120 * 2 powi (max 2 (- 1022) - 52))"
    by (rule fl_eqI2[where e = 2])
      (simp_all add: power_int_minus round_half_even_def Let_def)
  then show ?thesis by (simp add: power_int_minus)
qed

lemma synthetic_strikes_zero_price: "synthetic_strikes 0 \<noteq> []"
proof -
  let ?f = "\<lambda>i. py_round2 (fl_real (0 + real_of_int i * (1 / 2)))"
  have five: "?f 10 = 5"
    by (simp add: py_round2_def fl_real_def fl_five round_half_even_def)
  then have pos: "0 < ?f 10" by simp
  have "?f 10 \<in> ?f ` set [- 10 .. 10]" by (rule imageI) simp
  with pos have "?f 10 \<in> {x \<in> ?f ` set [- 10 .. 10]. 0 < x}" by blast
  then have "?f 10 \<in> set (synthetic_strikes 0)"
    by (simp only: synthetic_strikes_def set_filter set_map)
  then show ?thesis by (cases "synthetic_strikes 0") simp_all
qed

lemma pressure_zero_price:
  assumes "price md = 0" and "od = None \<or> (\<exists>chain. od = Some chain \<and> strikes chain \<noteq> [])"
  shows "pressure_analyze_try rng cdf md od = Inl ZeroDivisionError"
  using assms(2)
proof
  assume "od = None"
  moreover obtain k ks where "synthetic_strikes 0 = k # ks"
    using synthetic_strikes_zero_price by (cases "synthetic_strikes 0") auto
  ultimately show ?thesis
    using assms(1)
    by (simp add: pressure_analyze_try_def generate_synthetic_options_def try_bind_def
        py_truediv_def Let_def)
next
  assume "\<exists>chain. od = Some chain \<and> strikes chain \<noteq> []"
  then obtain chain k ks where "od = Some chain" "strikes chain = k # ks"
    by (metis list.exhaust)
  then show ?thesis
    using assms(1)
    by (simp add: pressure_analyze_try_def find_gamma_walls_def try_bind_def py_truediv_def
        Let_def)
qed

text \<open>An open interest beyond the range of doubles, at any strike of the chain, makes the
  search for gamma walls raise.\<close>

lemma find_gamma_walls_loop_overflow:
  assumes "k \<in> set ks"
    and "DBL_LIMIT \<le> \<bar>real_of_int (dict_get (calls_oi chain) k 0)\<bar>
         \<or> DBL_LIMIT \<le> \<bar>real_of_int (dict_get (puts_oi chain) k 0)\<bar>"
  shows "\<exists>e. find_gamma_walls_loop cdf current_price chain ks = Inl e"
  using assms(1)
proof (induction ks)
  case Nil
  then show ?case by simp
next
  case (Cons x xs)
  show ?case
  proof (cases "x = k")
    case True
    with assms(2) show ?thesis
      by (auto simp: float_of_int_def Let_def split: sum.splits)
  next
    case False
    with Cons obtain e where "find_gamma_walls_loop cdf current_price chain xs = Inl e"
      by auto
    then show ?thesis
      by (auto simp: Let_def split: sum.splits)
  qed
qed

lemma pressure_overflow:
  assumes "k \<in> set (strikes chain)"
    and "DBL_LIMIT \<le> \<bar>real_of_int (dict_get (calls_oi chain) k 0)\<bar>
         \<or> DBL_LIMIT \<le> \<bar>real_of_int (dict_get (puts_oi chain) k 0)\<bar>"
  shows "\<exists>e. pressure_analyze_try rng cdf md (Some chain) = Inl e"
proof -
  from find_gamma_walls_loop_overflow[OF assms] obtain e where
    "find_gamma_walls_loop cdf (price md) chain (strikes chain) = Inl e" by blast
  then show ?thesis
    by (simp add: pressure_analyze_try_def find_gamma_walls_def try_bind_def)
qed

lemma fuel_overflow:
  assumes "0 < avg_volume fundamentals"
    and "DBL_LIMIT \<le> \<bar>real_of_int (volume md) / real_of_int (avg_volume fundamentals)\<bar>"
  shows "fuel_analyze_try cfg rng md (Some fundamentals) = Inl OverflowError"
  using assms by (simp add: fuel_analyze_try_def try_bind_def int_truediv_def Let_def)

lemma fuel_synthetic_overflow:
  assumes "DBL_LIMIT \<le> \<bar>real_of_int (volume md)\<bar>"
  shows "fuel_analyze_try cfg rng md None = Inl OverflowError"
  using assms
  by (simp add: fuel_analyze_try_def generate_synthetic_fundamentals_def try_bind_def
      float_of_int_def Let_def)

lemma huge_oi_raises:
  "pressure_analyze_try rng cdf scenario_market_data (Some huge_oi_options) = Inl OverflowError"
  by (simp add: pressure_analyze_try_def find_gamma_walls_def try_bind_def huge_oi_options_def
      at_price_options_def scenario_market_data_def dict_get_def py_truediv_def
      float_of_int_def DBL_LIMIT_def Let_def)

section \<open>Claims about the signal engines\<close>

text \<open>
  Claim C3, as amended.  The \<^verbatim>\<open>probability_reach\<close> of the signal returned by
  \<^verbatim>\<open>PressureEngine.analyze\<close> is 0 when the signal has no target strike (no gamma wall
  was found, or an error was caught), is 1 when the target strike equals the current price,
  and lies in \<open>[0.01, 0.99]\<close> when the target strike differs from the current price.
\<close>

theorem pressure_probability_reach_cases:
  "(target_strike (pressure_analyze rng cdf md od) = None \<longrightarrow>
      PressureSignal.probability_reach (pressure_analyze rng cdf md od) = 0)
   \<and> (target_strike (pressure_analyze rng cdf md od) = Some (price md) \<longrightarrow>
      PressureSignal.probability_reach (pressure_analyze rng cdf md od) = 1)
   \<and> (\<forall>k. target_strike (pressure_analyze rng cdf md od) = Some k \<and> k \<noteq> price md \<longrightarrow>
      1 / 100 \<le> PressureSignal.probability_reach (pressure_analyze rng cdf md od)
      \<and> PressureSignal.probability_reach (pressure_analyze rng cdf md od) \<le> 99 / 100)"
  using pressure_analyze_probability[of rng cdf md od] by auto

theorem pressure_probability_reach_cases_witness:
  "target_strike (pressure_analyze zero_draws half_cdf scenario_market_data
                    (Some no_strikes_options)) = None
   \<and> PressureSignal.probability_reach
        (pressure_analyze zero_draws half_cdf scenario_market_data (Some no_strikes_options)) = 0
   \<and> target_strike (pressure_analyze zero_draws half_cdf scenario_market_data
                      (Some at_price_options)) = Some (price scenario_market_data)
   \<and> PressureSignal.probability_reach
        (pressure_analyze zero_draws half_cdf scenario_market_data (Some at_price_options)) = 1
   \<and> target_strike (pressure_analyze zero_draws half_cdf scenario_market_data
                      (Some above_price_options)) = Some 155
   \<and> 155 \<noteq> price scenario_market_data
   \<and> 1 / 100 \<le> PressureSignal.probability_reach
        (pressure_analyze zero_draws half_cdf scenario_market_data (Some above_price_options))
   \<and> PressureSignal.probability_reach
        (pressure_analyze zero_draws half_cdf scenario_market_data (Some above_price_options))
       \<le> 99 / 100"
proof -
  have p: "price scenario_market_data = 150" by (simp add: scenario_market_data_def)
  have a: "target_strike (pressure_analyze zero_draws half_cdf scenario_market_data
                    (Some no_strikes_options)) = None"
    by (simp add: no_strikes_signal)
  have b: "target_strike (pressure_analyze zero_draws half_cdf scenario_market_data
                      (Some at_price_options)) = Some (price scenario_market_data)"
    using at_price_signal p by simp
  have c: "target_strike (pressure_analyze zero_draws half_cdf scenario_market_data
                      (Some above_price_options)) = Some 155"
    by (rule above_price_signal)
  have d: "155 \<noteq> price scenario_market_data" using p by simp
  show ?thesis
    using a b c d
      pressure_probability_reach_cases[of zero_draws half_cdf scenario_market_data
        "Some no_strikes_options"]
      pressure_probability_reach_cases[of zero_draws half_cdf scenario_market_data
        "Some at_price_options"]
      pressure_probability_reach_cases[of zero_draws half_cdf scenario_market_data
        "Some above_price_options"]
    by blast
qed

text \<open>
  With no strike in the chain the probability is 0, and with a wall at the current price it
  is 1: both lie outside \<open>[0.01, 0.99]\<close>.
\<close>

theorem pressure_probability_reach_outside_interval:
  "PressureSignal.probability_reach
     (pressure_analyze zero_draws half_cdf scenario_market_data (Some no_strikes_options)) = 0
   \<and> PressureSignal.probability_reach
       (pressure_analyze zero_draws half_cdf scenario_market_data (Some at_price_options)) = 1
   \<and> \<not> (1 / 100 \<le> (0 :: real)) \<and> \<not> ((1 :: real) \<le> 99 / 100)"
  using at_price_signal by (simp add: no_strikes_signal)

text \<open>
  Claim C4.  Under a configuration with a non-negative maximal distance from the extremes,
  a volume multiple of at least 2 and non-negative weights (the shipped configuration is
  one), the scores of the three signals returned by the engines' \<^verbatim>\<open>analyze\<close> methods lie
  in \<open>[0, 100]\<close> for every snapshot and every auxiliary input, and so does the total score
  that \<^verbatim>\<open>_calculate_weighted_score\<close> computes from them.
\<close>

theorem engine_scores_within_bounds:
  assumes "0 \<le> MAX_DISTANCE_FROM_HOD_LOD cfg" and "2 \<le> MIN_VOLUME_MULTIPLE cfg"
    and "0 \<le> VWAP_MOMENTUM_WEIGHT cfg" and "0 \<le> OPTIONS_PRESSURE_WEIGHT cfg"
    and "0 \<le> VOLUME_WEIGHT cfg"
  shows "0 \<le> IgnitionSignal.score (ignition_analyze cfg normal nf md hist)
       \<and> IgnitionSignal.score (ignition_analyze cfg normal nf md hist) \<le> 100
       \<and> 0 \<le> PressureSignal.score (pressure_analyze rng cdf md od)
       \<and> PressureSignal.score (pressure_analyze rng cdf md od) \<le> 100
       \<and> 0 \<le> FuelSignal.score (fuel_analyze cfg rng' md fd)
       \<and> FuelSignal.score (fuel_analyze cfg rng' md fd) \<le> 100
       \<and> 0 \<le> calculate_weighted_score cfg (ignition_analyze cfg normal nf md hist)
                 (pressure_analyze rng cdf md od) (fuel_analyze cfg rng' md fd)
       \<and> calculate_weighted_score cfg (ignition_analyze cfg normal nf md hist)
            (pressure_analyze rng cdf md od) (fuel_analyze cfg rng' md fd) \<le> 100"
proof -
  note i = ignition_analyze_score_range[OF assms(1), of normal nf md hist]
  note p = pressure_analyze_score_range[of rng cdf md od]
  note f = fuel_analyze_score_range[OF assms(2), of rng' md fd]
  from i p f have
    "0 \<le> IgnitionSignal.score (ignition_analyze cfg normal nf md hist)"
    "0 \<le> PressureSignal.score (pressure_analyze rng cdf md od)"
    "0 \<le> FuelSignal.score (fuel_analyze cfg rng' md fd)"
    by simp_all
  from calculate_weighted_score_range[OF this assms(3-5)] i p f show ?thesis
    by simp
qed

theorem engine_scores_within_bounds_witness:
  "0 \<le> MAX_DISTANCE_FROM_HOD_LOD config \<and> 2 \<le> MIN_VOLUME_MULTIPLE config
   \<and> 0 \<le> VWAP_MOMENTUM_WEIGHT config \<and> 0 \<le> OPTIONS_PRESSURE_WEIGHT config
   \<and> 0 \<le> VOLUME_WEIGHT config
   \<and> 0 \<le> calculate_weighted_score config
             (ignition_analyze config zero_draws (Inl LinAlgError) scenario_market_data None)
             (pressure_analyze zero_draws half_cdf scenario_market_data None)
             (fuel_analyze config zero_draws scenario_market_data None)
   \<and> calculate_weighted_score config
        (ignition_analyze config zero_draws (Inl LinAlgError) scenario_market_data None)
        (pressure_analyze zero_draws half_cdf scenario_market_data None)
        (fuel_analyze config zero_draws scenario_market_data None) \<le> 100"
proof -
  have h: "0 \<le> MAX_DISTANCE_FROM_HOD_LOD config" "2 \<le> MIN_VOLUME_MULTIPLE config"
    "0 \<le> VWAP_MOMENTUM_WEIGHT config" "0 \<le> OPTIONS_PRESSURE_WEIGHT config"
    "0 \<le> VOLUME_WEIGHT config"
    by (simp_all add: config_def)
  show ?thesis
    using h engine_scores_within_bounds[OF h, of zero_draws "Inl LinAlgError"
        scenario_market_data None zero_draws half_cdf None zero_draws None]
    by simp
qed

text \<open>
  Claim C8.  The outcome of an engine's \<^verbatim>\<open>analyze\<close> is the result of its \<^verbatim>\<open>try\<close> block
  or, whenever that block raises, the engine's neutral signal: every trigger flag false
  and score 0 (the pressure signal has no flags: it has no target strike and a neutral
  dealer flow).  There is no third outcome, so no error reaches the caller.  The blocks do
  raise: the ignition block on a price of 0 and on an empty history; the pressure block on
  a price of 0 when the chain has a strike or is generated, and on an open interest that no
  double can hold; the fuel block on a volume that no double can hold, or whose quotient by
  the average volume no double can hold.
\<close>

theorem analyze_errors_give_neutral_signal:
  "(ignition_analyze_try cfg normal nf md hist = Inl ei \<longrightarrow>
      ignition_analyze cfg normal nf md hist = neutral_ignition_signal
      \<and> \<not> vwap_momentum (ignition_analyze cfg normal nf md hist)
      \<and> \<not> expansion_energy (ignition_analyze cfg normal nf md hist)
      \<and> \<not> entry_timing (ignition_analyze cfg normal nf md hist)
      \<and> IgnitionSignal.score (ignition_analyze cfg normal nf md hist) = 0)
   \<and> (pressure_analyze_try rng cdf md od = Inl ep \<longrightarrow>
      pressure_analyze rng cdf md od = neutral_pressure_signal md
      \<and> target_strike (pressure_analyze rng cdf md od) = None
      \<and> dealer_flow (pressure_analyze rng cdf md od) = ''neutral''
      \<and> PressureSignal.score (pressure_analyze rng cdf md od) = 0)
   \<and> (fuel_analyze_try cfg rng' md fd = Inl ef \<longrightarrow>
      fuel_analyze cfg rng' md fd = neutral_fuel_signal
      \<and> \<not> low_float (fuel_analyze cfg rng' md fd)
      \<and> \<not> high_short_interest (fuel_analyze cfg rng' md fd)
      \<and> \<not> high_borrow_cost (fuel_analyze cfg rng' md fd)
      \<and> \<not> volume_surge (fuel_analyze cfg rng' md fd)
      \<and> FuelSignal.score (fuel_analyze cfg rng' md fd) = 0)
   \<and> (ignition_analyze_try cfg normal nf md hist = Inr (ignition_analyze cfg normal nf md hist)
       \<or> ignition_analyze cfg normal nf md hist = neutral_ignition_signal)
   \<and> (pressure_analyze_try rng cdf md od = Inr (pressure_analyze rng cdf md od)
       \<or> pressure_analyze rng cdf md od = neutral_pressure_signal md)
   \<and> (fuel_analyze_try cfg rng' md fd = Inr (fuel_analyze cfg rng' md fd)
       \<or> fuel_analyze cfg rng' md fd = neutral_fuel_signal)
   \<and> (price md = 0 \<longrightarrow>
        (\<exists>e. ignition_analyze_try cfg normal nf md hist = Inl e)
        \<and> ignition_analyze cfg normal nf md hist = neutral_ignition_signal)
   \<and> (hist = Some [] \<longrightarrow>
        ignition_analyze_try cfg normal nf md hist = Inl IndexError
        \<and> ignition_analyze cfg normal nf md hist = neutral_ignition_signal)
   \<and> (price md = 0 \<and> (od = None \<or> (\<exists>chain. od = Some chain \<and> strikes chain \<noteq> [])) \<longrightarrow>
        pressure_analyze_try rng cdf md od = Inl ZeroDivisionError
        \<and> pressure_analyze rng cdf md od = neutral_pressure_signal md)
   \<and> (\<forall>chain k. od = Some chain \<and> k \<in> set (strikes chain)
          \<and> (DBL_LIMIT \<le> \<bar>real_of_int (dict_get (calls_oi chain) k 0)\<bar>
               \<or> DBL_LIMIT \<le> \<bar>real_of_int (dict_get (puts_oi chain) k 0)\<bar>) \<longrightarrow>
        (\<exists>e. pressure_analyze_try rng cdf md od = Inl e)
        \<and> pressure_analyze rng cdf md od = neutral_pressure_signal md)
   \<and> (\<forall>fundamentals. fd = Some fundamentals \<and> 0 < avg_volume fundamentals
          \<and> DBL_LIMIT \<le> \<bar>real_of_int (volume md) / real_of_int (avg_volume fundamentals)\<bar> \<longrightarrow>
        fuel_analyze_try cfg rng' md fd = Inl OverflowError
        \<and> fuel_analyze cfg rng' md fd = neutral_fuel_signal)
   \<and> (fd = None \<and> DBL_LIMIT \<le> \<bar>real_of_int (volume md)\<bar> \<longrightarrow>
        fuel_analyze_try cfg rng' md fd = Inl OverflowError
        \<and> fuel_analyze cfg rng' md fd = neutral_fuel_signal)"
proof -
  have caught:
    "ignition_analyze_try cfg normal nf md hist = Inl ei \<longrightarrow>
      ignition_analyze cfg normal nf md hist = neutral_ignition_signal
      \<and> \<not> vwap_momentum (ignition_analyze cfg normal nf md hist)
      \<and> \<not> expansion_energy (ignition_analyze cfg normal nf md hist)
      \<and> \<not> entry_timing (ignition_analyze cfg normal nf md hist)
      \<and> IgnitionSignal.score (ignition_analyze cfg normal nf md hist) = 0"
    "pressure_analyze_try rng cdf md od = Inl ep \<longrightarrow>
      pressure_analyze rng cdf md od = neutral_pressure_signal md
      \<and> target_strike (pressure_analyze rng cdf md od) = None
      \<and> dealer_flow (pressure_analyze rng cdf md od) = ''neutral''
      \<and> PressureSignal.score (pressure_analyze rng cdf md od) = 0"
    "fuel_analyze_try cfg rng' md fd = Inl ef \<longrightarrow>
      fuel_analyze cfg rng' md fd = neutral_fuel_signal
      \<and> \<not> low_float (fuel_analyze cfg rng' md fd)
      \<and> \<not> high_short_interest (fuel_analyze cfg rng' md fd)
      \<and> \<not> high_borrow_cost (fuel_analyze cfg rng' md fd)
      \<and> \<not> volume_surge (fuel_analyze cfg rng' md fd)
      \<and> FuelSignal.score (fuel_analyze cfg rng' md fd) = 0"
    by (simp_all add: ignition_analyze_def pressure_analyze_def fuel_analyze_def
        neutral_ignition_signal_def neutral_pressure_signal_def neutral_fuel_signal_def)
  have outcomes:
    "ignition_analyze_try cfg normal nf md hist = Inr (ignition_analyze cfg normal nf md hist)
       \<or> ignition_analyze cfg normal nf md hist = neutral_ignition_signal"
    "pressure_analyze_try rng cdf md od = Inr (pressure_analyze rng cdf md od)
       \<or> pressure_analyze rng cdf md od = neutral_pressure_signal md"
    "fuel_analyze_try cfg rng' md fd = Inr (fuel_analyze cfg rng' md fd)
       \<or> fuel_analyze cfg rng' md fd = neutral_fuel_signal"
    by (simp_all add: ignition_analyze_def pressure_analyze_def fuel_analyze_def
        split: sum.splits)
  have i_neutral: "ignition_analyze cfg normal nf md hist = neutral_ignition_signal"
    if "ignition_analyze_try cfg normal nf md hist = Inl e" for e
    using that by (simp add: ignition_analyze_def)
  have p_neutral: "pressure_analyze rng cdf md od = neutral_pressure_signal md"
    if "pressure_analyze_try rng cdf md od = Inl e" for e
    using that by (simp add: pressure_analyze_def)
  have f_neutral: "fuel_analyze cfg rng' md fd = neutral_fuel_signal"
    if "fuel_analyze_try cfg rng' md fd = Inl e" for e
    using that by (simp add: fuel_analyze_def)
  have i1: "price md = 0 \<longrightarrow>
        (\<exists>e. ignition_analyze_try cfg normal nf md hist = Inl e)
        \<and> ignition_analyze cfg normal nf md hist = neutral_ignition_signal"
    using ignition_zero_price[of md cfg normal nf hist] i_neutral by blast
  have i2: "hist = Some [] \<longrightarrow>
        ignition_analyze_try cfg normal nf md hist = Inl IndexError
        \<and> ignition_analyze cfg normal nf md hist = neutral_ignition_signal"
    using ignition_empty_history[of cfg normal nf md] i_neutral by auto
  have p1: "price md = 0 \<and> (od = None \<or> (\<exists>chain. od = Some chain \<and> strikes chain \<noteq> [])) \<longrightarrow>
        pressure_analyze_try rng cdf md od = Inl ZeroDivisionError
        \<and> pressure_analyze rng cdf md od = neutral_pressure_signal md"
    using pressure_zero_price[of md od rng cdf] p_neutral by blast
  have p2: "\<forall>chain k. od = Some chain \<and> k \<in> set (strikes chain)
          \<and> (DBL_LIMIT \<le> \<bar>real_of_int (dict_get (calls_oi chain) k 0)\<bar>
               \<or> DBL_LIMIT \<le> \<bar>real_of_int (dict_get (puts_oi chain) k 0)\<bar>) \<longrightarrow>
        (\<exists>e. pressure_analyze_try rng cdf md od = Inl e)
        \<and> pressure_analyze rng cdf md od = neutral_pressure_signal md"
  proof (intro allI impI)
    fix chain k
    assume h: "od = Some chain \<and> k \<in> set (strikes chain)
          \<and> (DBL_LIMIT \<le> \<bar>real_of_int (dict_get (calls_oi chain) k 0)\<bar>
               \<or> DBL_LIMIT \<le> \<bar>real_of_int (dict_get (puts_oi chain) k 0)\<bar>)"
    then obtain e where "pressure_analyze_try rng cdf md (Some chain) = Inl e"
      using pressure_overflow[of k chain rng cdf md] by blast
    with h show "(\<exists>e. pressure_analyze_try rng cdf md od = Inl e)
        \<and> pressure_analyze rng cdf md od = neutral_pressure_signal md"
      using p_neutral by auto
  qed
  have f1: "\<forall>fundamentals. fd = Some fundamentals \<and> 0 < avg_volume fundamentals
          \<and> DBL_LIMIT \<le> \<bar>real_of_int (volume md) / real_of_int (avg_volume fundamentals)\<bar> \<longrightarrow>
        fuel_analyze_try cfg rng' md fd = Inl OverflowError
        \<and> fuel_analyze cfg rng' md fd = neutral_fuel_signal"
    using fuel_overflow[of _ md cfg rng'] f_neutral by auto
  have f2: "fd = None \<and> DBL_LIMIT \<le> \<bar>real_of_int (volume md)\<bar> \<longrightarrow>
        fuel_analyze_try cfg rng' md fd = Inl OverflowError
        \<and> fuel_analyze cfg rng' md fd = neutral_fuel_signal"
    using fuel_synthetic_overflow[of md cfg rng'] f_neutral by auto
  from caught outcomes i1 i2 p1 p2 f1 f2 show ?thesis by blast
qed

theorem analyze_errors_give_neutral_signal_witness:
  "price (scenario_market_data\<lparr>price := 0\<rparr>) = 0
   \<and> ignition_analyze_try config zero_draws (Inl LinAlgError)
       (scenario_market_data\<lparr>price := 0\<rparr>) (Some []) = Inl IndexError
   \<and> ignition_analyze config zero_draws (Inl LinAlgError)
       (scenario_market_data\<lparr>price := 0\<rparr>) (Some []) = neutral_ignition_signal
   \<and> strikes at_price_options \<noteq> []
   \<and> pressure_analyze_try zero_draws half_cdf (scenario_market_data\<lparr>price := 0\<rparr>)
       (Some at_price_options) = Inl ZeroDivisionError
   \<and> pressure_analyze zero_draws half_cdf (scenario_market_data\<lparr>price := 0\<rparr>)
       (Some at_price_options) = neutral_pressure_signal (scenario_market_data\<lparr>price := 0\<rparr>)
   \<and> pressure_analyze zero_draws half_cdf (scenario_market_data\<lparr>price := 0\<rparr>) None
       = neutral_pressure_signal (scenario_market_data\<lparr>price := 0\<rparr>)
   \<and> 150 \<in> set (strikes huge_oi_options)
   \<and> DBL_LIMIT \<le> \<bar>real_of_int (dict_get (calls_oi huge_oi_options) 150 0)\<bar>
   \<and> pressure_analyze_try zero_draws half_cdf scenario_market_data (Some huge_oi_options)
       = Inl OverflowError
   \<and> pressure_analyze zero_draws half_cdf scenario_market_data (Some huge_oi_options)
       = neutral_pressure_signal scenario_market_data
   \<and> 0 < avg_volume example_fundamentals
   \<and> DBL_LIMIT \<le> \<bar>real_of_int (volume (scenario_market_data\<lparr>volume := 2 ^ 1024\<rparr>))
                     / real_of_int (avg_volume example_fundamentals)\<bar>
   \<and> fuel_analyze config zero_draws (scenario_market_data\<lparr>volume := 2 ^ 1024\<rparr>)
       (Some example_fundamentals) = neutral_fuel_signal
   \<and> DBL_LIMIT \<le> \<bar>real_of_int (volume (scenario_market_data\<lparr>volume := 2 ^ 1024\<rparr>))\<bar>
   \<and> fuel_analyze config zero_draws (scenario_market_data\<lparr>volume := 2 ^ 1024\<rparr>) None
       = neutral_fuel_signal"
proof -
  let ?zero = "scenario_market_data\<lparr>price := 0\<rparr>"
  let ?loud = "scenario_market_data\<lparr>volume := 2 ^ 1024\<rparr>"
  have h1: "price ?zero = 0" by simp
  have h2: "strikes at_price_options \<noteq> []" by (simp add: at_price_options_def)
  have h3: "150 \<in> set (strikes huge_oi_options)"
    "DBL_LIMIT \<le> \<bar>real_of_int (dict_get (calls_oi huge_oi_options) 150 0)\<bar>"
    by (simp_all add: huge_oi_options_def at_price_options_def dict_get_def DBL_LIMIT_def)
  have h4: "0 < avg_volume example_fundamentals"
    "DBL_LIMIT \<le> \<bar>real_of_int (volume ?loud) / real_of_int (avg_volume example_fundamentals)\<bar>"
    "DBL_LIMIT \<le> \<bar>real_of_int (volume ?loud)\<bar>"
    by (simp_all add: example_fundamentals_def DBL_LIMIT_def)
  note a = analyze_errors_give_neutral_signal[where cfg = config and normal = zero_draws
      and nf = "Inl LinAlgError" and md = ?zero and hist = "Some []"
      and rng = zero_draws and cdf = half_cdf and od = "Some at_price_options"]
  note b = analyze_errors_give_neutral_signal[where md = ?zero
      and rng = zero_draws and cdf = half_cdf and od = None]
  note c = analyze_errors_give_neutral_signal[where md = scenario_market_data
      and rng = zero_draws and cdf = half_cdf and od = "Some huge_oi_options"]
  note d = analyze_errors_give_neutral_signal[where cfg = config and rng' = zero_draws
      and md = ?loud and fd = "Some example_fundamentals"]
  note e = analyze_errors_give_neutral_signal[where cfg = config and rng' = zero_draws
      and md = ?loud and fd = None]
  from a h1 have "ignition_analyze_try config zero_draws (Inl LinAlgError) ?zero (Some [])
        = Inl IndexError"
    and "ignition_analyze config zero_draws (Inl LinAlgError) ?zero (Some [])
        = neutral_ignition_signal"
    by blast+
  moreover from a h1 h2 have "pressure_analyze_try zero_draws half_cdf ?zero (Some at_price_options)
        = Inl ZeroDivisionError"
    and "pressure_analyze zero_draws half_cdf ?zero (Some at_price_options)
        = neutral_pressure_signal ?zero"
    by blast+
  moreover from b h1 have "pressure_analyze zero_draws half_cdf ?zero None
        = neutral_pressure_signal ?zero"
    by blast
  moreover from c h3 have "pressure_analyze zero_draws half_cdf scenario_market_data
        (Some huge_oi_options) = neutral_pressure_signal scenario_market_data"
    by blast
  moreover from d h4 have "fuel_analyze config zero_draws ?loud (Some example_fundamentals)
        = neutral_fuel_signal"
    by blast
  moreover from e h4 have "fuel_analyze config zero_draws ?loud None = neutral_fuel_signal"
    by blast
  ultimately show ?thesis
    using h1 h2 h3 h4 huge_oi_raises[of zero_draws half_cdf] by blast
qed

end
